theory Spec2Isabelle
  imports Complex_Main "HOL-Library.Multiset" "HOL-Library.Log_Nat"
begin

section \<open>Data model\<close>

text \<open>
  The application keeps three collections in memory (\<^verbatim>\<open>App.tsx\<close>): clients, operations
  and receipts. Only operations and receipts take part in the rules verified here.

  Conventions of the embedding:
  \<^item> a JavaScript \<^verbatim>\<open>number\<close> stored in a record (an amount of money, a rate) is held by
    its exact value, a rational (\<^typ>\<open>rat\<close>). Where the program's decision depends on
    how a sum, product or quotient is rounded (the completion test of a receipt, the
    reversal test, the installment split) the arithmetic is binary64, modelled in the
    section on numbers below. The totals of the Dashboard are sums of exact values;
  \<^item> record ids are natural numbers (primary keys generated by the store);
  \<^item> the due date of a stored operation is a date-only ISO string; it is identified
    with the index of its calendar day, and \<open>parseISO\<close> maps it to the local midnight
    that starts that day;
  \<^item> an instant is a number of milliseconds on the local clock; every day has
    \<open>msPerDay\<close> milliseconds (a fixed offset to UTC, no daylight-saving change).
\<close>

datatype OperationStatus = aberto | pago | atrasado

datatype OperationType = duplicata | cheque | parcelamento

type_synonym isoDate = int

type_synonym instant = int

text \<open>
  The fields that \<^verbatim>\<open>Operation\<close> and \<^verbatim>\<open>NewOperation\<close> of \<^verbatim>\<open>types.ts\<close> share with the same
  meaning.
\<close>

record OperationFields =
  clientId :: nat
  opType :: OperationType
  titleNumber :: string
  nominalValue :: rat
  issueDate :: string
  taxa :: rat
  observacoes :: string

record Operation = OperationFields +
  dueDate :: isoDate
  opId :: nat
  clientName :: string
  netValue :: rat
  status :: OperationStatus

text \<open>
  \<^verbatim>\<open>NewOperation.dueDate\<close> is the text of the form's date field, which starts empty and
  is not validated: \<open>dueDateInput\<close> is \<open>None\<close> when the text is not a date (then
  \<^verbatim>\<open>parseISO\<close> gives an Invalid Date), and the day otherwise.
\<close>

record NewOperation = OperationFields +
  dueDateInput :: "isoDate option"
  installments :: "nat option"

text \<open>The fields shared by \<^verbatim>\<open>Recebimento\<close> and \<^verbatim>\<open>NewRecebimento\<close>.\<close>

record RecebimentoFields =
  operationId :: nat
  data_recebimento :: string
  valor_total_recebido :: rat
  valor_principal_pago :: rat
  valor_juros_pago :: rat
  forma_pagamento :: string
  obs_recebimento :: string

record Recebimento = RecebimentoFields +
  recId :: nat

text \<open>
  \<open>newDueDate\<close> is an optional string tested for truthiness
  (\<^verbatim>\<open>if (receiptData.newDueDate)\<close>): \<open>None\<close> stands for an absent or empty value.
\<close>

record NewRecebimento = RecebimentoFields +
  newDueDate :: "isoDate option"

record Reminder =
  remId :: nat
  remOperationId :: nat
  remClientName :: string
  remDueDate :: isoDate
  remNominalValue :: rat

section \<open>Numbers: binary64 arithmetic\<close>

text \<open>
  A JavaScript \<^verbatim>\<open>number\<close> is an IEEE 754 binary64 value. The result of \<^verbatim>\<open>+\<close>, \<^verbatim>\<open>-\<close>,
  \<^verbatim>\<open>*\<close> and \<^verbatim>\<open>/\<close> on finite operands is the exact result rounded to the nearest
  binary64 value, ties to the even significand, and an infinity when that value is
  out of range. The sign of a zero is not modelled (it changes no comparison).

  \<open>ilog2 x\<close> is the binary exponent of \<open>x \<noteq> 0\<close>, the integer \<open>e\<close> with
  \<open>2\<^sup>e \<le> \<bar>x\<bar> < 2\<^sup>e\<^sup>+\<^sup>1\<close>, read off the bit lengths of numerator and denominator.
\<close>

definition ilog2 :: "rat \<Rightarrow> int" where
  "ilog2 x =
     (let d = bitlen (fst (quotient_of \<bar>x\<bar>)) - bitlen (snd (quotient_of \<bar>x\<bar>))
      in if 2 powi d \<le> \<bar>x\<bar> then d else d - 1)"

definition roundHalfEven :: "rat \<Rightarrow> int" where
  "roundHalfEven z =
     (let f = \<lfloor>z\<rfloor>; r = z - of_int f
      in if r < 1 / 2 then f
         else if 1 / 2 < r then f + 1
         else if even f then f else f + 1)"

text \<open>
  The nearest value with a 53-bit significand; below \<open>2\<^sup>-\<^sup>1\<^sup>0\<^sup>2\<^sup>2\<close> the spacing stays that of
  the subnormal numbers.
\<close>

definition nearest64 :: "rat \<Rightarrow> rat" where
  "nearest64 x =
     (if x = 0 then 0
      else
        let q = max (ilog2 x) (- 1022) - 52
        in of_int (roundHalfEven (x / 2 powi q)) * 2 powi q)"

datatype number = Finite rat | PlusInfinity | MinusInfinity | NaN

definition round64 :: "rat \<Rightarrow> number" where
  "round64 x =
     (let y = nearest64 x
      in if 2 powi 1024 \<le> \<bar>y\<bar>
         then (if 0 < y then PlusInfinity else MinusInfinity)
         else Finite y)"

text \<open>
  The number that a decimal numeral with two places denotes (in the JSON of the store,
  or read by \<^verbatim>\<open>parseFloat\<close>): \<open>decimal 1004\<close> is the binary64 number written \<^verbatim>\<open>10.04\<close>.
\<close>

definition decimal :: "int \<Rightarrow> rat" where
  "decimal c = nearest64 (of_int c / 100)"

fun signOf :: "number \<Rightarrow> int" where
  "signOf (Finite a) = (if a < 0 then - 1 else if a = 0 then 0 else 1)"
| "signOf PlusInfinity = 1"
| "signOf MinusInfinity = - 1"
| "signOf NaN = 0"

fun fneg :: "number \<Rightarrow> number" where
  "fneg (Finite a) = Finite (- a)"
| "fneg PlusInfinity = MinusInfinity"
| "fneg MinusInfinity = PlusInfinity"
| "fneg NaN = NaN"

fun fadd :: "number \<Rightarrow> number \<Rightarrow> number" where
  "fadd (Finite a) (Finite b) = round64 (a + b)"
| "fadd NaN y = NaN"
| "fadd x NaN = NaN"
| "fadd PlusInfinity MinusInfinity = NaN"
| "fadd MinusInfinity PlusInfinity = NaN"
| "fadd PlusInfinity y = PlusInfinity"
| "fadd MinusInfinity y = MinusInfinity"
| "fadd x PlusInfinity = PlusInfinity"
| "fadd x MinusInfinity = MinusInfinity"

definition fsub :: "number \<Rightarrow> number \<Rightarrow> number" where
  "fsub x y = fadd x (fneg y)"

fun fmul :: "number \<Rightarrow> number \<Rightarrow> number" where
  "fmul (Finite a) (Finite b) = round64 (a * b)"
| "fmul NaN y = NaN"
| "fmul x NaN = NaN"
| "fmul x y =
     (if signOf x * signOf y = 0 then NaN
      else if 0 < signOf x * signOf y then PlusInfinity else MinusInfinity)"

text \<open>
  The divisors in the code modelled here are \<open>100\<close> and an installment count above
  one; a zero divisor is taken as positive.
\<close>

fun fdiv :: "number \<Rightarrow> number \<Rightarrow> number" where
  "fdiv (Finite a) (Finite b) =
     (if b = 0
      then (if a = 0 then NaN else if 0 < a then PlusInfinity else MinusInfinity)
      else round64 (a / b))"
| "fdiv NaN y = NaN"
| "fdiv x NaN = NaN"
| "fdiv (Finite a) y = Finite 0"
| "fdiv x (Finite b) = (if 0 \<le> b then x else fneg x)"
| "fdiv x y = NaN"

text \<open>\<^verbatim>\<open>x >= y\<close> and \<^verbatim>\<open>x < y\<close>: false as soon as an operand is \<^verbatim>\<open>NaN\<close>.\<close>

fun fge :: "number \<Rightarrow> number \<Rightarrow> bool" where
  "fge (Finite a) (Finite b) = (b \<le> a)"
| "fge NaN y = False"
| "fge x NaN = False"
| "fge PlusInfinity y = True"
| "fge x MinusInfinity = True"
| "fge x y = False"

fun flt :: "number \<Rightarrow> number \<Rightarrow> bool" where
  "flt (Finite a) (Finite b) = (a < b)"
| "flt NaN y = False"
| "flt x NaN = False"
| "flt PlusInfinity y = False"
| "flt x MinusInfinity = False"
| "flt x y = True"

text \<open>
  \<^verbatim>\<open>x.toFixed(2)\<close> writes \<open>n / 100\<close> for the integer \<open>n\<close> nearest to \<open>100 * x\<close>, taken on the
  exact value of the binary64 number \<open>x\<close>; of two equally near integers it takes the
  larger for \<open>x \<ge> 0\<close>, and a negative \<open>x\<close> is written as its absolute value with a minus
  sign. \<open>centsOf x\<close> is that \<open>n\<close>. \<^verbatim>\<open>parseFloat\<close> reads the text back as the nearest
  binary64 number. From \<open>10\<^sup>2\<^sup>1\<close> on \<^verbatim>\<open>toFixed\<close> writes the number as \<^verbatim>\<open>String\<close> does, and
  reading that back gives the number itself.
\<close>

definition centsOf :: "rat \<Rightarrow> int" where
  "centsOf x = (if x < 0 then - \<lfloor>(- x) * 100 + 1 / 2\<rfloor> else \<lfloor>x * 100 + 1 / 2\<rfloor>)"

fun toFixed2 :: "number \<Rightarrow> number" where
  "toFixed2 (Finite x) =
     (if 10 ^ 21 \<le> \<bar>x\<bar> then Finite x else round64 (of_int (centsOf x) / 100))"
| "toFixed2 PlusInfinity = PlusInfinity"
| "toFixed2 MinusInfinity = MinusInfinity"
| "toFixed2 NaN = NaN"

section \<open>Dates (date-fns as used by the application)\<close>

definition msPerDay :: int where
  "msPerDay = 86400000"

definition parseISO :: "isoDate \<Rightarrow> instant" where
  "parseISO d = d * msPerDay"

definition startOfDay :: "instant \<Rightarrow> instant" where
  "startOfDay t = (t div msPerDay) * msPerDay"

text \<open>\<^verbatim>\<open>isPast(date)\<close> is \<^verbatim>\<open>date < Date.now()\<close>; \<^verbatim>\<open>isToday(date)\<close> compares the starts of the two days.\<close>

definition isPast :: "instant \<Rightarrow> instant \<Rightarrow> bool" where
  "isPast now t = (t < now)"

definition isToday :: "instant \<Rightarrow> instant \<Rightarrow> bool" where
  "isToday now t = (startOfDay t = startOfDay now)"

text \<open>The number of full days between two instants, truncated towards zero.\<close>

definition differenceInDays :: "instant \<Rightarrow> instant \<Rightarrow> int" where
  "differenceInDays l r =
     (if r \<le> l then (l - r) div msPerDay else - ((r - l) div msPerDay))"

text \<open>The calendar day an instant falls in.\<close>

definition dayOf :: "instant \<Rightarrow> isoDate" where
  "dayOf t = t div msPerDay"

section \<open>Dashboard: the portfolio aggregator\<close>

text \<open>
  \<^verbatim>\<open>Dashboard\<close>, the \<^verbatim>\<open>stats\<close> memo. \<^verbatim>\<open>reduce((sum, r) => sum + f(r), 0)\<close> is a left fold.
  The totals are taken on exact values.
\<close>

record Stats =
  activeCapital :: rat
  totalReceivables :: rat
  interestToReceive :: rat
  delinquencyValue :: rat

definition opReceipts :: "Recebimento list \<Rightarrow> Operation \<Rightarrow> Recebimento list" where
  "opReceipts rs op = filter (\<lambda>r. operationId r = opId op) rs"

definition paidPrincipal :: "Recebimento list \<Rightarrow> Operation \<Rightarrow> rat" where
  "paidPrincipal rs op = foldl (\<lambda>sum r. sum + valor_principal_pago r) 0 (opReceipts rs op)"

definition paidInterest :: "Recebimento list \<Rightarrow> Operation \<Rightarrow> rat" where
  "paidInterest rs op = foldl (\<lambda>sum r. sum + valor_juros_pago r) 0 (opReceipts rs op)"

definition originalInterest :: "Operation \<Rightarrow> rat" where
  "originalInterest op = nominalValue op - netValue op"

definition remainingPrincipal :: "Recebimento list \<Rightarrow> Operation \<Rightarrow> rat" where
  "remainingPrincipal rs op = max 0 (netValue op - paidPrincipal rs op)"

definition remainingInterest :: "Recebimento list \<Rightarrow> Operation \<Rightarrow> rat" where
  "remainingInterest rs op = max 0 (originalInterest op - paidInterest rs op)"

definition currentDebt :: "Recebimento list \<Rightarrow> Operation \<Rightarrow> rat" where
  "currentDebt rs op = remainingPrincipal rs op + remainingInterest rs op"

definition isActive :: "Operation \<Rightarrow> bool" where
  "isActive op = (status op = aberto \<or> status op = atrasado)"

text \<open>The body of \<^verbatim>\<open>activeOperations.forEach\<close>, acting on the four accumulators.\<close>

definition statsStep :: "Recebimento list \<Rightarrow> Stats \<Rightarrow> Operation \<Rightarrow> Stats" where
  "statsStep rs acc op =
     (let acc1 = (if status op = atrasado
                  then acc\<lparr>delinquencyValue := delinquencyValue acc + currentDebt rs op\<rparr>
                  else acc)
      in acc1\<lparr>totalReceivables := totalReceivables acc1 + currentDebt rs op,
              activeCapital := activeCapital acc1 + remainingPrincipal rs op,
              interestToReceive := interestToReceive acc1 + remainingInterest rs op\<rparr>)"

definition stats0 :: Stats where
  "stats0 = \<lparr>activeCapital = 0, totalReceivables = 0, interestToReceive = 0,
             delinquencyValue = 0\<rparr>"

definition stats :: "Operation list \<Rightarrow> Recebimento list \<Rightarrow> Stats" where
  "stats ops rs = foldl (statsStep rs) stats0 (filter isActive ops)"

section \<open>Application state and the store\<close>

text \<open>
  The handlers of \<^verbatim>\<open>App.tsx\<close> read and replace the in-memory collections and send
  requests to an external store. The state records the collections, the requests
  issued so far (oldest first) and the error notifications shown. What the store
  answers is an argument of each handler: a request is accepted or refused, and an
  accepted insert returns the generated id.
\<close>

datatype StoreRequest =
    SelectUsers
  | SelectClients
  | SelectOperations
  | SelectReceipts
  | InsertReceipt RecebimentoFields
  | UpdateOperationStatus nat OperationStatus
  | UpdateOperationDueDate nat isoDate OperationStatus
  | DeleteReceipt nat

datatype Notification =
    ErroCarregarDados
  | ErroAtualizarStatus
  | ErroRegistrarRecebimento
  | ErroExcluirRecebimento

record AppState =
  operations :: "Operation list"
  receipts :: "Recebimento list"
  dismissedReminderIds :: "nat list"
  requests :: "StoreRequest list"
  notifications :: "Notification list"

definition issue :: "StoreRequest \<Rightarrow> AppState \<Rightarrow> AppState" where
  "issue q st = st\<lparr>requests := requests st @ [q]\<rparr>"

definition addNotification :: "Notification \<Rightarrow> AppState \<Rightarrow> AppState" where
  "addNotification n st = st\<lparr>notifications := notifications st @ [n]\<rparr>"

subsection \<open>fetchData\<close>

text \<open>The callback of \<^verbatim>\<open>mappedOps.map\<close>: the overdue reclassification at load time.\<close>

definition overdueUpdate :: "instant \<Rightarrow> Operation \<Rightarrow> Operation" where
  "overdueUpdate now op =
     (if status op = aberto
      then (if isPast now (parseISO (dueDate op)) \<and> \<not> isToday now (parseISO (dueDate op))
            then op\<lparr>status := atrasado\<rparr>
            else op)
      else op)"

text \<open>
  The rows of each select are given already mapped to the in-memory field names;
  \<open>None\<close> is a store error. \<^verbatim>\<open>sort((a,b) => b.id - a.id)\<close> is a stable sort by
  descending id. Users and clients are fetched first and an error there leaves
  the operations untouched; their rows play no part below.
\<close>

definition fetchData ::
  "instant \<Rightarrow> bool \<Rightarrow> bool \<Rightarrow> Operation list option \<Rightarrow> Recebimento list option
    \<Rightarrow> AppState \<Rightarrow> AppState" where
  "fetchData now usersOk clientsOk opsData receiptsData st =
     (let st1 = issue SelectUsers st in
      if \<not> usersOk then addNotification ErroCarregarDados st1
      else
        let st2 = issue SelectClients st1 in
        if \<not> clientsOk then addNotification ErroCarregarDados st2
        else
          let st3 = issue SelectOperations st2 in
          case opsData of
            None \<Rightarrow> addNotification ErroCarregarDados st3
          | Some rows \<Rightarrow>
              let mappedOps = sort_key (\<lambda>op. - int (opId op)) rows;
                  updatedOps = map (overdueUpdate now) mappedOps;
                  st4 = issue SelectReceipts (st3\<lparr>operations := updatedOps\<rparr>)
              in (case receiptsData of
                    None \<Rightarrow> addNotification ErroCarregarDados st4
                  | Some rrows \<Rightarrow>
                      st4\<lparr>receipts := sort_key (\<lambda>r. - int (recId r)) rrows\<rparr>))"

subsection \<open>handleUpdateOperationStatus\<close>

definition handleUpdateOperationStatus ::
  "bool \<Rightarrow> nat \<Rightarrow> OperationStatus \<Rightarrow> AppState \<Rightarrow> AppState" where
  "handleUpdateOperationStatus updOk operationId' status' st =
     (let st1 = issue (UpdateOperationStatus operationId' status') st in
      if updOk
      then st1\<lparr>operations :=
                 map (\<lambda>op. if opId op = operationId' then op\<lparr>status := status'\<rparr> else op)
                     (operations st1)\<rparr>
      else addNotification ErroAtualizarStatus st1)"

subsection \<open>handleAddReceipt\<close>

definition insertedRow :: "NewRecebimento \<Rightarrow> RecebimentoFields" where
  "insertedRow receiptData =
     \<lparr>operationId = operationId receiptData,
      data_recebimento = data_recebimento receiptData,
      valor_total_recebido = valor_total_recebido receiptData,
      valor_principal_pago = valor_principal_pago receiptData,
      valor_juros_pago = valor_juros_pago receiptData,
      forma_pagamento = forma_pagamento receiptData,
      obs_recebimento = obs_recebimento receiptData\<rparr>"

text \<open>The row the store returns: the inserted fields and the generated id.\<close>

definition newReceipt :: "nat \<Rightarrow> NewRecebimento \<Rightarrow> Recebimento" where
  "newReceipt newId receiptData =
     \<lparr>operationId = operationId receiptData,
      data_recebimento = data_recebimento receiptData,
      valor_total_recebido = valor_total_recebido receiptData,
      valor_principal_pago = valor_principal_pago receiptData,
      valor_juros_pago = valor_juros_pago receiptData,
      forma_pagamento = forma_pagamento receiptData,
      obs_recebimento = obs_recebimento receiptData,
      recId = newId\<rparr>"

text \<open>
  \<open>insertRes\<close> answers the insert of the receipt (\<open>None\<close>: refused), \<open>updOk\<close> the one
  update of the operation that may follow. The handler reads \<^verbatim>\<open>operations\<close> and
  \<^verbatim>\<open>receipts\<close> as they were when it was called and replaces the collections through
  the state setters. The principal total is accumulated in binary64, from \<open>0\<close>, over
  the receipts in the order of the list, and the new receipt is added last.
\<close>

definition handleAddReceipt ::
  "nat option \<Rightarrow> bool \<Rightarrow> NewRecebimento \<Rightarrow> AppState \<Rightarrow> AppState" where
  "handleAddReceipt insertRes updOk receiptData st =
     (let st1 = issue (InsertReceipt (insertedRow receiptData)) st in
      case insertRes of
        None \<Rightarrow> addNotification ErroRegistrarRecebimento st1
      | Some newId \<Rightarrow>
          let st2 = st1\<lparr>receipts := newReceipt newId receiptData # receipts st1\<rparr> in
          (case find (\<lambda>op. opId op = operationId receiptData) (operations st) of
            None \<Rightarrow> st2
          | Some operation \<Rightarrow>
              (case newDueDate receiptData of
                 Some d \<Rightarrow>
                   let st3 = issue (UpdateOperationDueDate (opId operation) d aberto) st2 in
                   if updOk
                   then st3\<lparr>operations :=
                              map (\<lambda>op. if opId op = opId operation
                                         then op\<lparr>dueDate := d, status := aberto\<rparr>
                                         else op)
                                  (operations st3)\<rparr>
                   else addNotification ErroRegistrarRecebimento st3
               | None \<Rightarrow>
                   let totalPrincipalPaid =
                         fadd
                           (foldl (\<lambda>sum r. fadd sum (Finite (valor_principal_pago r))) (Finite 0)
                              (filter (\<lambda>r. operationId r = operationId receiptData)
                                 (receipts st)))
                           (Finite (valor_principal_pago receiptData))
                   in if fge totalPrincipalPaid (Finite (nominalValue operation))
                      then handleUpdateOperationStatus updOk (opId operation) pago st2
                      else st2)))"

subsection \<open>handleDeleteReceipt\<close>

definition handleDeleteReceipt ::
  "instant \<Rightarrow> bool \<Rightarrow> bool \<Rightarrow> nat \<Rightarrow> AppState \<Rightarrow> AppState" where
  "handleDeleteReceipt now delOk updOk receiptId st =
     (case find (\<lambda>r. recId r = receiptId) (receipts st) of
        None \<Rightarrow> st
      | Some receiptToDelete \<Rightarrow>
          let st1 = issue (DeleteReceipt receiptId) st in
          if \<not> delOk then addNotification ErroExcluirRecebimento st1
          else
            let st2 = st1\<lparr>receipts := filter (\<lambda>r. recId r \<noteq> receiptId) (receipts st1)\<rparr> in
            (case find (\<lambda>op. opId op = operationId receiptToDelete) (operations st) of
              None \<Rightarrow> st2
            | Some operation \<Rightarrow>
                if status operation \<noteq> pago then st2
                else
                  let remainingReceiptsForOp =
                        filter (\<lambda>r. operationId r = operationId receiptToDelete
                                     \<and> recId r \<noteq> receiptId) (receipts st);
                      totalPrincipalPaid =
                        foldl (\<lambda>sum r. fadd sum (Finite (valor_principal_pago r))) (Finite 0)
                          remainingReceiptsForOp
                  in if flt totalPrincipalPaid (Finite (nominalValue operation))
                     then
                       let dueDate' = parseISO (dueDate operation);
                           isOverdue = (isPast now dueDate' \<and> \<not> isToday now dueDate');
                           newStatus = (if isOverdue then atrasado else aberto)
                       in handleUpdateOperationStatus updOk (opId operation) newStatus st2
                     else st2))"

subsection \<open>activeReminders\<close>

definition REMINDER_WINDOW_DAYS :: int where
  "REMINDER_WINDOW_DAYS = 7"

definition reminderFilter :: "instant \<Rightarrow> nat list \<Rightarrow> Operation \<Rightarrow> bool" where
  "reminderFilter today dismissed op =
     (if status op \<noteq> aberto \<or> opId op \<in> set dismissed then False
      else
        let daysDiff = differenceInDays (parseISO (dueDate op)) today
        in daysDiff \<ge> 0 \<and> daysDiff \<le> REMINDER_WINDOW_DAYS)"

definition toReminder :: "Operation \<Rightarrow> Reminder" where
  "toReminder op =
     \<lparr>remId = opId op, remOperationId = opId op, remClientName = clientName op,
      remDueDate = dueDate op, remNominalValue = nominalValue op\<rparr>"

text \<open>\<^verbatim>\<open>today\<close> is the current instant with the time of day cleared; the sort is stable.\<close>

definition activeReminders :: "instant \<Rightarrow> AppState \<Rightarrow> Reminder list" where
  "activeReminders now st =
     (let today = startOfDay now
      in sort_key (\<lambda>r. parseISO (remDueDate r))
           (map toReminder
              (filter (reminderFilter today (dismissedReminderIds st)) (operations st))))"

section \<open>Creating operations: installment expansion\<close>

text \<open>
  \<^verbatim>\<open>parseCurrencyInput\<close> (\<^verbatim>\<open>lib/utils\<close>) turns the masked text of the value field into
  the \<^verbatim>\<open>nominalValue\<close> that the form submits: the digits of the text, read as a number
  (\<^verbatim>\<open>Number(onlyDigits)\<close>) and divided by 100.
\<close>

definition isDigit :: "char \<Rightarrow> bool" where
  "isDigit c = (c \<in> set ''0123456789'')"

definition digitValue :: "char \<Rightarrow> nat" where
  "digitValue c = of_char c - 48"

definition digitsValue :: "string \<Rightarrow> nat" where
  "digitsValue ds = foldl (\<lambda>n c. 10 * n + digitValue c) 0 ds"

definition Number :: "string \<Rightarrow> number" where
  "Number ds = round64 (of_nat (digitsValue ds))"

definition parseCurrencyInput :: "string \<Rightarrow> number" where
  "parseCurrencyInput v =
     (let onlyDigits = filter isDigit v
      in if onlyDigits = [] then Finite 0 else fdiv (Number onlyDigits) (Finite 100))"

text \<open>
  The rows sent to the store. \<open>due_date\<close> is a due date and a number of calendar
  months to add to it (\<^verbatim>\<open>addMonths\<close>, whose calendar arithmetic is not interpreted); the
  single operation passes the text of the form on as it is, \<open>None\<close> when it is not a
  date. \<open>client_id\<close> is \<open>None\<close> for \<^verbatim>\<open>null\<close>.
\<close>

record OperationPayload =
  payload_type :: OperationType
  title_number :: string
  nominal_value :: number
  net_value :: number
  issue_date :: string
  due_date :: "isoDate option \<times> nat"
  payload_taxa :: rat
  payload_status :: OperationStatus
  client_id :: "nat option"
  payload_observacoes :: string

fun showNat :: "nat \<Rightarrow> string" where
  "showNat n =
     (if n < 10 then [char_of (48 + n)]
      else showNat (n div 10) @ [char_of (48 + n mod 10)])"

text \<open>
  \<^verbatim>\<open>toISOString()\<close> on an Invalid Date throws \<^verbatim>\<open>RangeError\<close>; the \<^verbatim>\<open>try\<close> block around the
  loop catches it, and nothing is sent to the store.
\<close>

datatype Exception = RangeError

text \<open>
  The body of the \<^verbatim>\<open>for\<close> loop of \<^verbatim>\<open>handleAddOperation\<close>, at index \<open>i\<close>: the row, or the
  exception thrown while the due date is computed.
\<close>

definition installmentPayload ::
  "NewOperation \<Rightarrow> nat \<Rightarrow> number \<Rightarrow> number \<Rightarrow> nat \<Rightarrow> Exception + OperationPayload" where
  "installmentPayload opData count' nominalPerInstallment diff i =
     (let taxaDecimal = fdiv (Finite (taxa opData)) (Finite 100);
          value = (if int i = int count' - 1 then fadd nominalPerInstallment diff
                   else nominalPerInstallment);
          interestAmount = fmul value taxaDecimal;
          netValue' = fadd value interestAmount
      in case dueDateInput opData of
           None \<Rightarrow> Inl RangeError
         | Some d \<Rightarrow>
             Inr \<lparr>payload_type = parcelamento,
                  title_number =
                    titleNumber opData @ ''-'' @ showNat (i + 1) @ ''/'' @ showNat count',
                  nominal_value = value,
                  net_value = netValue',
                  issue_date = issueDate opData,
                  due_date = (Some d, i),
                  payload_taxa = taxa opData,
                  payload_status = aberto,
                  client_id = (if clientId opData > 0 then Some (clientId opData) else None),
                  payload_observacoes = observacoes opData\<rparr>)"

function installmentLoop ::
  "NewOperation \<Rightarrow> nat \<Rightarrow> number \<Rightarrow> number \<Rightarrow> nat \<Rightarrow> OperationPayload list
    \<Rightarrow> Exception + OperationPayload list" where
  "installmentLoop opData count' nominalPerInstallment diff i bulkOperations =
     (if i < count'
      then (case installmentPayload opData count' nominalPerInstallment diff i of
              Inl e \<Rightarrow> Inl e
            | Inr payload \<Rightarrow>
                installmentLoop opData count' nominalPerInstallment diff (i + 1)
                  (bulkOperations @ [payload]))
      else Inr bulkOperations)"
  by pat_completeness auto
termination
  by (relation "measure (\<lambda>(opData, count', per, diff, i, bulk). count' - i)") auto

definition singlePayload :: "NewOperation \<Rightarrow> OperationPayload" where
  "singlePayload opData =
     (let taxaDecimal = fdiv (Finite (taxa opData)) (Finite 100);
          interestAmount = fmul (Finite (nominalValue opData)) taxaDecimal;
          netValue' = fadd (Finite (nominalValue opData)) interestAmount
      in \<lparr>payload_type = opType opData,
          title_number = titleNumber opData,
          nominal_value = Finite (nominalValue opData),
          net_value = netValue',
          issue_date = issueDate opData,
          due_date = (dueDateInput opData, 0),
          payload_taxa = taxa opData,
          payload_status = aberto,
          client_id = (if clientId opData > 0 then Some (clientId opData) else None),
          payload_observacoes = observacoes opData\<rparr>)"

text \<open>
  The guard \<^verbatim>\<open>opData.type === 'parcelamento' && opData.installments && opData.installments > 1\<close>:
  the installment count when the expansion applies.
\<close>

definition installmentCount :: "NewOperation \<Rightarrow> nat option" where
  "installmentCount opData =
     (if opType opData = parcelamento
      then (case installments opData of
              None \<Rightarrow> None
            | Some n \<Rightarrow> if n > 1 then Some n else None)
      else None)"

text \<open>
  The rows that \<^verbatim>\<open>handleAddOperation\<close> hands to the store's insert: the expanded
  installments or the single operation; or the exception that ends the expansion
  before anything is sent.
\<close>

definition operationPayloads :: "NewOperation \<Rightarrow> Exception + OperationPayload list" where
  "operationPayloads opData =
     (case installmentCount opData of
        Some count' \<Rightarrow>
          let totalNominal = Finite (nominalValue opData);
              nominalPerInstallment = toFixed2 (fdiv totalNominal (Finite (of_nat count')));
              totalCalculated = fmul nominalPerInstallment (Finite (of_nat count'));
              diff = toFixed2 (fsub totalNominal totalCalculated)
          in installmentLoop opData count' nominalPerInstallment diff 0 []
      | None \<Rightarrow> Inr [singlePayload opData])"

section \<open>Sample data\<close>

text \<open>Records used by the closed instances of the theorems below.\<close>

definition sampleOperation :: "nat \<Rightarrow> rat \<Rightarrow> rat \<Rightarrow> isoDate \<Rightarrow> OperationStatus \<Rightarrow> Operation" where
  "sampleOperation i nominal net due s =
     \<lparr>clientId = 1, opType = duplicata, titleNumber = ''T-1'', nominalValue = nominal,
      issueDate = ''2025-01-01'', taxa = 10, observacoes = [],
      dueDate = due, opId = i, clientName = ''Cliente'', netValue = net, status = s\<rparr>"

definition sampleReceipt :: "nat \<Rightarrow> nat \<Rightarrow> rat \<Rightarrow> rat \<Rightarrow> Recebimento" where
  "sampleReceipt i oid princ juros =
     \<lparr>operationId = oid, data_recebimento = ''2025-02-01'',
      valor_total_recebido = princ + juros, valor_principal_pago = princ,
      valor_juros_pago = juros, forma_pagamento = ''pix'', obs_recebimento = [],
      recId = i\<rparr>"

definition sampleNewReceipt :: "nat \<Rightarrow> rat \<Rightarrow> rat \<Rightarrow> isoDate option \<Rightarrow> NewRecebimento" where
  "sampleNewReceipt oid princ juros due =
     \<lparr>operationId = oid, data_recebimento = ''2025-03-01'',
      valor_total_recebido = princ + juros, valor_principal_pago = princ,
      valor_juros_pago = juros, forma_pagamento = ''pix'', obs_recebimento = [],
      newDueDate = due\<rparr>"

definition sampleState :: "Operation list \<Rightarrow> Recebimento list \<Rightarrow> AppState" where
  "sampleState ops rs =
     \<lparr>operations = ops, receipts = rs, dismissedReminderIds = [], requests = [],
      notifications = []\<rparr>"

text \<open>One o'clock in the morning of day 20000.\<close>

definition sampleNow :: instant where
  "sampleNow = 20000 * 86400000 + 3600000"

definition sampleNewOperation :: "rat \<Rightarrow> nat \<Rightarrow> isoDate option \<Rightarrow> NewOperation" where
  "sampleNewOperation nominal n due =
     \<lparr>clientId = 1, opType = parcelamento, titleNumber = ''P'', nominalValue = nominal,
      issueDate = ''2025-01-01'', taxa = 10, observacoes = [],
      dueDateInput = due, installments = Some n\<rparr>"

section \<open>Sums of receipts and the accumulators of the aggregator\<close>

lemma foldl_add_sum_list:
  "foldl (\<lambda>sum r. sum + f r) (a::rat) xs = a + sum_list (map f xs)"
  by (induction xs arbitrary: a) simp_all

lemma paidPrincipal_sum:
  "paidPrincipal rs op = sum_list (map valor_principal_pago (opReceipts rs op))"
  by (simp add: paidPrincipal_def foldl_add_sum_list)

lemma paidInterest_sum:
  "paidInterest rs op = sum_list (map valor_juros_pago (opReceipts rs op))"
  by (simp add: paidInterest_def foldl_add_sum_list)

lemma remainingInterest_nonneg: "0 \<le> remainingInterest rs op"
  by (simp add: remainingInterest_def)

lemma statsStep_fields:
  "activeCapital (statsStep rs acc op) = activeCapital acc + remainingPrincipal rs op"
  "totalReceivables (statsStep rs acc op) = totalReceivables acc + currentDebt rs op"
  "interestToReceive (statsStep rs acc op) = interestToReceive acc + remainingInterest rs op"
  "delinquencyValue (statsStep rs acc op)
     = delinquencyValue acc + (if status op = atrasado then currentDebt rs op else 0)"
  by (simp_all add: statsStep_def Let_def)

lemma foldl_statsStep:
  "foldl (statsStep rs) acc xs =
     \<lparr>activeCapital = activeCapital acc + sum_list (map (remainingPrincipal rs) xs),
      totalReceivables = totalReceivables acc + sum_list (map (currentDebt rs) xs),
      interestToReceive = interestToReceive acc + sum_list (map (remainingInterest rs) xs),
      delinquencyValue = delinquencyValue acc
        + sum_list (map (currentDebt rs) (filter (\<lambda>op. status op = atrasado) xs))\<rparr>"
proof (induction xs arbitrary: acc)
  case Nil
  show ?case by simp
next
  case (Cons x xs)
  show ?case
    by (simp add: Cons.IH statsStep_fields add.assoc)
qed

lemma stats_fields:
  "stats ops rs =
     \<lparr>activeCapital = sum_list (map (remainingPrincipal rs) (filter isActive ops)),
      totalReceivables = sum_list (map (currentDebt rs) (filter isActive ops)),
      interestToReceive = sum_list (map (remainingInterest rs) (filter isActive ops)),
      delinquencyValue =
        sum_list (map (currentDebt rs) (filter (\<lambda>op. status op = atrasado) ops))\<rparr>"
proof -
  have "filter (\<lambda>op. status op = atrasado) (filter isActive ops)
        = filter (\<lambda>op. status op = atrasado) ops"
    by (induction ops) (auto simp: isActive_def)
  then show ?thesis
    by (simp add: stats_def foldl_statsStep stats0_def)
qed

section \<open>The portfolio aggregator\<close>

text \<open>
  Claim C6. For an operation and the receipts given to the aggregator, the remaining
  principal is \<open>max 0 (netValue - paidPrincipal)\<close>, where \<open>paidPrincipal\<close> is the sum of
  \<open>valor_principal_pago\<close> over the receipts of the operation (\<open>netValue\<close> is the base the
  payments are subtracted from); it is never negative; \<open>activeCapital\<close> adds it up over
  the active operations; and with \<open>nominalValue = 100\<close>, \<open>netValue = 110\<close> and one receipt
  of principal 150 the remaining principal is 0.
\<close>

theorem remainingPrincipal_floor:
  "remainingPrincipal rs op
     = max 0 (netValue op
              - sum_list (map valor_principal_pago (filter (\<lambda>r. operationId r = opId op) rs)))
   \<and> 0 \<le> remainingPrincipal rs op
   \<and> activeCapital (stats ops rs)
       = sum_list (map (remainingPrincipal rs) (filter isActive ops))
   \<and> (nominalValue op = 100 \<and> netValue op = 110 \<and> operationId r = opId op
        \<and> valor_principal_pago r = 150 \<longrightarrow> remainingPrincipal [r] op = 0)"
  by (simp add: remainingPrincipal_def paidPrincipal_sum opReceipts_def stats_fields)

theorem remainingPrincipal_floor_witness:
  "remainingPrincipal [sampleReceipt 1 7 150 0] (sampleOperation 7 100 110 20000 aberto) = 0
   \<and> activeCapital (stats [sampleOperation 7 100 110 20000 aberto] [sampleReceipt 1 7 150 0]) = 0"
  using remainingPrincipal_floor
    [of "[sampleReceipt 1 7 150 0]" "sampleOperation 7 100 110 20000 aberto"
        "[sampleOperation 7 100 110 20000 aberto]" "sampleReceipt 1 7 150 0"]
  by (simp add: sampleReceipt_def sampleOperation_def isActive_def)


lemma sum_list_currentDebt:
  "sum_list (map (currentDebt rs) xs)
     = sum_list (map (remainingPrincipal rs) xs) + sum_list (map (remainingInterest rs) xs)"
  by (induction xs) (simp_all add: currentDebt_def)

text \<open>
  Claim C7. The aggregator only looks at operations whose status is \<open>aberto\<close> or
  \<open>atrasado\<close>: each of its four totals is a sum over those operations, so an operation
  with status \<open>pago\<close> anywhere in the list changes none of them, whatever its balances.
  \<open>totalReceivables\<close> is \<open>activeCapital + interestToReceive\<close>. \<open>delinquencyValue\<close> adds
  the current debt of the \<open>atrasado\<close> operations only: an \<open>aberto\<close> operation adds its debt
  to \<open>totalReceivables\<close> and nothing to \<open>delinquencyValue\<close>.
\<close>

theorem stats_scope:
  "stats ops rs =
     \<lparr>activeCapital = sum_list (map (remainingPrincipal rs) (filter isActive ops)),
      totalReceivables = sum_list (map (currentDebt rs) (filter isActive ops)),
      interestToReceive = sum_list (map (remainingInterest rs) (filter isActive ops)),
      delinquencyValue =
        sum_list (map (currentDebt rs) (filter (\<lambda>op. status op = atrasado) ops))\<rparr>
   \<and> totalReceivables (stats ops rs)
       = activeCapital (stats ops rs) + interestToReceive (stats ops rs)
   \<and> (status op = pago \<longrightarrow> stats (xs @ op # ys) rs = stats (xs @ ys) rs)
   \<and> (status op = aberto \<longrightarrow>
         delinquencyValue (stats (xs @ op # ys) rs) = delinquencyValue (stats (xs @ ys) rs)
       \<and> totalReceivables (stats (xs @ op # ys) rs)
           = totalReceivables (stats (xs @ ys) rs) + currentDebt rs op)
   \<and> (status op = atrasado \<longrightarrow>
         delinquencyValue (stats (xs @ op # ys) rs)
           = delinquencyValue (stats (xs @ ys) rs) + currentDebt rs op)"
proof -
  have total: "totalReceivables (stats ops rs)
       = activeCapital (stats ops rs) + interestToReceive (stats ops rs)"
    by (simp add: stats_fields sum_list_currentDebt)
  have paid: "stats (xs @ op # ys) rs = stats (xs @ ys) rs" if "status op = pago"
    using that by (simp add: stats_fields isActive_def)
  have open_deb: "delinquencyValue (stats (xs @ op # ys) rs)
       = delinquencyValue (stats (xs @ ys) rs)" if "status op = aberto"
    using that by (simp add: stats_fields)
  have open_tot: "totalReceivables (stats (xs @ op # ys) rs)
       = totalReceivables (stats (xs @ ys) rs) + currentDebt rs op" if "status op = aberto"
    using that by (simp add: stats_fields isActive_def)
  have late: "delinquencyValue (stats (xs @ op # ys) rs)
       = delinquencyValue (stats (xs @ ys) rs) + currentDebt rs op" if "status op = atrasado"
    using that by (simp add: stats_fields)
  from total paid open_deb open_tot late show ?thesis
    by (simp add: stats_fields)
qed

theorem stats_scope_witness:
  "status (sampleOperation 1 100 110 20000 pago) = pago
   \<and> stats ([sampleOperation 2 200 220 20000 aberto]
             @ sampleOperation 1 100 110 20000 pago # [sampleOperation 3 300 330 20000 atrasado])
        [sampleReceipt 1 2 50 0]
     = stats ([sampleOperation 2 200 220 20000 aberto]
             @ [sampleOperation 3 300 330 20000 atrasado]) [sampleReceipt 1 2 50 0]"
  using stats_scope
    [of "[]" "[sampleReceipt 1 2 50 0]" "sampleOperation 1 100 110 20000 pago"
        "[sampleOperation 2 200 220 20000 aberto]" "[sampleOperation 3 300 330 20000 atrasado]"]
  by (simp add: sampleOperation_def)

text \<open>
  Claim C4. The claim takes the original interest of an operation to be
  \<open>netValue - nominalValue\<close>, which is how \<^verbatim>\<open>handleAddOperation\<close> builds \<open>netValue\<close>
  (nominal value plus interest). The aggregator subtracts the other way round
  (\<open>originalInterest\<close> above). For an open operation with \<open>nominalValue = 100\<close>,
  \<open>netValue = 110\<close> and no receipt, the aggregator's remaining interest and
  \<open>interestToReceive\<close> are 0, where the claim's formula gives 10. The floor at zero is
  there: \<open>interestToReceive\<close> is never negative.
\<close>

theorem remainingInterest_operands:
  "remainingInterest rs op
     = max 0 ((nominalValue op - netValue op)
              - sum_list (map valor_juros_pago (filter (\<lambda>r. operationId r = opId op) rs)))
   \<and> 0 \<le> interestToReceive (stats ops rs)
   \<and> remainingInterest [] (sampleOperation 1 100 110 20000 aberto) = 0
   \<and> max 0 ((netValue (sampleOperation 1 100 110 20000 aberto)
              - nominalValue (sampleOperation 1 100 110 20000 aberto))
             - paidInterest [] (sampleOperation 1 100 110 20000 aberto)) = 10
   \<and> interestToReceive (stats [sampleOperation 1 100 110 20000 aberto] []) = 0"
proof -
  have general: "remainingInterest rs op
     = max 0 ((nominalValue op - netValue op)
              - sum_list (map valor_juros_pago (filter (\<lambda>r. operationId r = opId op) rs)))"
    by (simp add: remainingInterest_def originalInterest_def paidInterest_sum opReceipts_def)
  have "0 \<le> sum_list (map (remainingInterest rs) xs)" for xs
    by (induction xs) (simp_all add: remainingInterest_nonneg)
  then have nonneg: "0 \<le> interestToReceive (stats ops rs)"
    by (simp add: stats_fields)
  have at_input: "remainingInterest [] (sampleOperation 1 100 110 20000 aberto) = 0"
    by (simp add: sampleOperation_def remainingInterest_def originalInterest_def
        paidInterest_def opReceipts_def)
  have expected: "max 0 ((netValue (sampleOperation 1 100 110 20000 aberto)
              - nominalValue (sampleOperation 1 100 110 20000 aberto))
             - paidInterest [] (sampleOperation 1 100 110 20000 aberto)) = 10"
    by (simp add: sampleOperation_def paidInterest_def opReceipts_def)
  have total: "interestToReceive (stats [sampleOperation 1 100 110 20000 aberto] []) = 0"
  proof -
    have "isActive (sampleOperation 1 100 110 20000 aberto)"
      by (simp add: isActive_def sampleOperation_def)
    then have "interestToReceive (stats [sampleOperation 1 100 110 20000 aberto] [])
        = remainingInterest [] (sampleOperation 1 100 110 20000 aberto)"
      by (simp add: stats_fields)
    then show ?thesis
      by (simp only: at_input)
  qed
  from general nonneg at_input expected total show ?thesis
    by (intro conjI)
qed

section \<open>Calendar days\<close>

lemma msPerDay_pos: "0 < msPerDay"
  by (simp add: msPerDay_def)

lemma overdue_iff:
  "(isPast now (parseISO d) \<and> \<not> isToday now (parseISO d)) = (d < dayOf now)"
proof -
  define q where "q = now div msPerDay"
  define r where "r = now mod msPerDay"
  have now: "now = q * msPerDay + r"
    by (simp add: q_def r_def)
  have r0: "0 \<le> r" and r1: "r < msPerDay"
    using msPerDay_pos by (simp_all add: r_def)
  have past: "(d * msPerDay < now) = (d < q \<or> (d = q \<and> 0 < r))"
  proof (cases "d < q")
    case True
    then have "d + 1 \<le> q" by simp
    then have "(d + 1) * msPerDay \<le> q * msPerDay"
      using msPerDay_pos by (simp only: mult_le_cancel_right) simp
    then have "d * msPerDay + msPerDay \<le> q * msPerDay"
      by (simp add: algebra_simps)
    with r0 msPerDay_pos have "d * msPerDay < q * msPerDay + r" by linarith
    with True show ?thesis by (simp add: now)
  next
    case False
    show ?thesis
    proof (cases "d = q")
      case True
      then show ?thesis by (simp add: now)
    next
      case neq: False
      with False have "q + 1 \<le> d" by simp
      then have "(q + 1) * msPerDay \<le> d * msPerDay"
        using msPerDay_pos by (simp only: mult_le_cancel_right) simp
      then have "q * msPerDay + msPerDay \<le> d * msPerDay"
        by (simp add: algebra_simps)
      with r1 have "\<not> d * msPerDay < q * msPerDay + r" by linarith
      with False neq show ?thesis by (simp add: now)
    qed
  qed
  have today: "isToday now (parseISO d) = (d = q)"
    using msPerDay_pos by (simp add: isToday_def startOfDay_def parseISO_def q_def)
  have "(isPast now (parseISO d) \<and> \<not> isToday now (parseISO d)) = (d < q)"
    using today past by (auto simp: isPast_def parseISO_def)
  then show ?thesis
    by (simp add: dayOf_def q_def)
qed

lemma differenceInDays_midnights:
  "differenceInDays (parseISO d) (startOfDay now) = d - dayOf now"
proof -
  define q where "q = now div msPerDay"
  have a: "d * msPerDay - q * msPerDay = (d - q) * msPerDay"
    by (simp add: algebra_simps)
  have b: "q * msPerDay - d * msPerDay = (q - d) * msPerDay"
    by (simp add: algebra_simps)
  have le: "(q * msPerDay \<le> d * msPerDay) = (q \<le> d)"
    using msPerDay_pos by simp
  show ?thesis
    unfolding differenceInDays_def parseISO_def startOfDay_def dayOf_def q_def [symmetric] le a b
    using msPerDay_pos by simp
qed


section \<open>State bookkeeping\<close>

lemma issue_simps [simp]:
  "operations (issue q st) = operations st"
  "receipts (issue q st) = receipts st"
  "dismissedReminderIds (issue q st) = dismissedReminderIds st"
  "requests (issue q st) = requests st @ [q]"
  "notifications (issue q st) = notifications st"
  by (simp_all add: issue_def)

lemma addNotification_simps [simp]:
  "operations (addNotification n st) = operations st"
  "receipts (addNotification n st) = receipts st"
  "dismissedReminderIds (addNotification n st) = dismissedReminderIds st"
  "requests (addNotification n st) = requests st"
  "notifications (addNotification n st) = notifications st @ [n]"
  by (simp_all add: addNotification_def)

section \<open>Loading the operations\<close>

lemma overdueUpdate_days:
  "overdueUpdate now op
     = (if status op = aberto \<and> dueDate op < dayOf now then op\<lparr>status := atrasado\<rparr> else op)"
  by (simp add: overdueUpdate_def overdue_iff)

lemma overdueUpdate_not_open_past:
  "\<not> (status (overdueUpdate now op) = aberto \<and> dueDate (overdueUpdate now op) < dayOf now)"
  by (simp add: overdueUpdate_days)

lemma operations_fetchData:
  "operations (fetchData now True True (Some rows) receiptsData st)
     = map (overdueUpdate now) (sort_key (\<lambda>op. - int (opId op)) rows)"
  by (simp add: fetchData_def Let_def split: option.split)

text \<open>
  Claim C8. When \<^verbatim>\<open>fetchData\<close> loads the operations (the selects of users, clients and
  operations succeed), the in-memory list is the stored rows, newest id first, where
  every row stored as \<open>aberto\<close> whose due date is a calendar day before today is shown
  as \<open>atrasado\<close> and every other row is as stored. So the loaded list holds no
  operation that is \<open>aberto\<close> and strictly past due.
\<close>

theorem fetchData_overdue:
  assumes "usersOk" and "clientsOk" and "opsData = Some rows"
  shows "operations (fetchData now usersOk clientsOk opsData receiptsData st)
           = map (\<lambda>op. if status op = aberto \<and> dueDate op < dayOf now
                         then op\<lparr>status := atrasado\<rparr> else op)
                 (sort_key (\<lambda>op. - int (opId op)) rows)
         \<and> mset (operations (fetchData now usersOk clientsOk opsData receiptsData st))
           = image_mset (\<lambda>op. if status op = aberto \<and> dueDate op < dayOf now
                                then op\<lparr>status := atrasado\<rparr> else op) (mset rows)
         \<and> (\<forall>op \<in> set (operations (fetchData now usersOk clientsOk opsData receiptsData st)).
               \<not> (status op = aberto \<and> dueDate op < dayOf now))"
proof -
  let ?f = "\<lambda>op. if status op = aberto \<and> dueDate op < dayOf now
                  then op\<lparr>status := atrasado\<rparr> else op"
  let ?ops = "operations (fetchData now usersOk clientsOk opsData receiptsData st)"
  have fn: "overdueUpdate now = ?f"
    by (rule ext) (rule overdueUpdate_days)
  from assms have "fetchData now usersOk clientsOk opsData receiptsData st
      = fetchData now True True (Some rows) receiptsData st"
    by simp
  then have "?ops = map (overdueUpdate now) (sort_key (\<lambda>op. - int (opId op)) rows)"
    by (simp only: operations_fetchData)
  then have eq: "?ops = map ?f (sort_key (\<lambda>op. - int (opId op)) rows)"
    by (simp only: fn)
  have ms: "mset ?ops = image_mset ?f (mset rows)"
    by (simp only: eq mset_map mset_sort)
  have inv: "\<forall>op \<in> set ?ops. \<not> (status op = aberto \<and> dueDate op < dayOf now)"
  proof
    fix op assume "op \<in> set ?ops"
    then obtain op' where "op = overdueUpdate now op'"
      unfolding eq fn [symmetric] by auto
    then show "\<not> (status op = aberto \<and> dueDate op < dayOf now)"
      by (simp only: overdueUpdate_not_open_past not_False_eq_True)
  qed
  from eq ms inv show ?thesis by blast
qed

theorem fetchData_overdue_witness:
  "operations (fetchData sampleNow True True
       (Some [sampleOperation 1 100 110 19999 aberto, sampleOperation 2 100 110 20000 aberto,
              sampleOperation 3 100 110 19000 pago]) (Some []) (sampleState [] []))
     = [sampleOperation 3 100 110 19000 pago, sampleOperation 2 100 110 20000 aberto,
        sampleOperation 1 100 110 19999 atrasado]"
  using fetchData_overdue [of True True
      "Some [sampleOperation 1 100 110 19999 aberto, sampleOperation 2 100 110 20000 aberto,
              sampleOperation 3 100 110 19000 pago]"
      "[sampleOperation 1 100 110 19999 aberto, sampleOperation 2 100 110 20000 aberto,
              sampleOperation 3 100 110 19000 pago]" sampleNow "Some []" "sampleState [] []"]
  by (simp add: sampleOperation_def sampleNow_def dayOf_def msPerDay_def)

section \<open>Deleting a receipt that is not there\<close>

lemma find_None_image: "x \<notin> f ` set xs \<Longrightarrow> find (\<lambda>y. f y = x) xs = None"
  by (auto simp: find_None_iff)

text \<open>
  Claim C10. Deleting a receipt id that no receipt in memory carries does nothing at
  all: no request reaches the store (the request log is part of the state) and the
  receipts, the operations and their statuses are as before.
\<close>

theorem handleDeleteReceipt_unknown_id:
  "receiptId \<notin> recId ` set (receipts st)
     \<Longrightarrow> handleDeleteReceipt now delOk updOk receiptId st = st"
  by (simp add: handleDeleteReceipt_def find_None_image)

theorem handleDeleteReceipt_unknown_id_witness:
  "(2::nat) \<notin> recId ` set (receipts (sampleState [sampleOperation 7 100 110 19000 pago]
                                        [sampleReceipt 1 7 100 10]))
   \<and> handleDeleteReceipt sampleNow True True 2
        (sampleState [sampleOperation 7 100 110 19000 pago] [sampleReceipt 1 7 100 10])
      = sampleState [sampleOperation 7 100 110 19000 pago] [sampleReceipt 1 7 100 10]"
proof -
  have h: "(2::nat) \<notin> recId ` set (receipts (sampleState [sampleOperation 7 100 110 19000 pago]
                                        [sampleReceipt 1 7 100 10]))"
    by (simp add: sampleState_def sampleReceipt_def)
  from h handleDeleteReceipt_unknown_id [OF h, of sampleNow True True] show ?thesis
    by simp
qed


section \<open>Reminders\<close>

lemma reminderFilter_days:
  "reminderFilter (startOfDay now) dismissed op
     = (status op = aberto \<and> opId op \<notin> set dismissed
        \<and> dayOf now \<le> dueDate op \<and> dueDate op \<le> dayOf now + 7)"
  by (auto simp: reminderFilter_def differenceInDays_midnights REMINDER_WINDOW_DAYS_def Let_def)

lemma sorted_parseISO:
  "sorted (map (\<lambda>r. parseISO (remDueDate r)) xs) \<Longrightarrow> sorted (map remDueDate xs)"
proof -
  have le: "(a * msPerDay \<le> b * msPerDay) = (a \<le> b)" for a b :: int
    using msPerDay_pos by simp
  assume "sorted (map (\<lambda>r. parseISO (remDueDate r)) xs)"
  then show ?thesis
    by (simp add: sorted_map parseISO_def le)
qed

text \<open>
  Claim C9, as the code has it. The reminder list holds exactly the operations with
  status \<open>aberto\<close> whose due date lies between today and today + 7 days, both
  included, and whose id has not been dismissed; it is sorted by ascending due date.
  The filter tests \<^verbatim>\<open>op.status !== 'aberto'\<close>, so an \<open>atrasado\<close> operation never gives
  a reminder: the closed instance after the theorem has an \<open>atrasado\<close> operation due
  in three days, not dismissed, and an empty reminder list.
\<close>

theorem activeReminders_aberto:
  "mset (activeReminders now st)
     = image_mset toReminder
         (filter_mset (\<lambda>op. status op = aberto \<and> opId op \<notin> set (dismissedReminderIds st)
                            \<and> dayOf now \<le> dueDate op \<and> dueDate op \<le> dayOf now + 7)
            (mset (operations st)))
   \<and> sorted (map remDueDate (activeReminders now st))"
proof -
  have fn: "reminderFilter (startOfDay now) (dismissedReminderIds st)
      = (\<lambda>op. status op = aberto \<and> opId op \<notin> set (dismissedReminderIds st)
                            \<and> dayOf now \<le> dueDate op \<and> dueDate op \<le> dayOf now + 7)"
    by (rule ext) (rule reminderFilter_days)
  have ms: "mset (activeReminders now st)
     = image_mset toReminder
         (filter_mset (reminderFilter (startOfDay now) (dismissedReminderIds st))
            (mset (operations st)))"
    by (simp add: activeReminders_def Let_def)
  have "sorted (map (\<lambda>r. parseISO (remDueDate r)) (activeReminders now st))"
    by (simp add: activeReminders_def Let_def)
  then have so: "sorted (map remDueDate (activeReminders now st))"
    by (rule sorted_parseISO)
  from ms so show ?thesis
    by (simp only: fn simp_thms)
qed

theorem activeReminders_aberto_witness:
  "sorted (map remDueDate (activeReminders sampleNow
     (sampleState [sampleOperation 1 100 110 20005 aberto, sampleOperation 2 200 220 20000 aberto,
                   sampleOperation 3 300 330 20008 aberto, sampleOperation 4 400 440 19999 aberto,
                   sampleOperation 5 500 550 20001 pago] [])))
   \<and> activeReminders sampleNow
     (sampleState [sampleOperation 1 100 110 20005 aberto, sampleOperation 2 200 220 20000 aberto,
                   sampleOperation 3 300 330 20008 aberto, sampleOperation 4 400 440 19999 aberto,
                   sampleOperation 5 500 550 20001 pago] [])
   = [toReminder (sampleOperation 2 200 220 20000 aberto),
      toReminder (sampleOperation 1 100 110 20005 aberto)]"
proof
  from activeReminders_aberto [of sampleNow
     "sampleState [sampleOperation 1 100 110 20005 aberto, sampleOperation 2 200 220 20000 aberto,
                   sampleOperation 3 300 330 20008 aberto, sampleOperation 4 400 440 19999 aberto,
                   sampleOperation 5 500 550 20001 pago] []"]
  show "sorted (map remDueDate (activeReminders sampleNow
     (sampleState [sampleOperation 1 100 110 20005 aberto, sampleOperation 2 200 220 20000 aberto,
                   sampleOperation 3 300 330 20008 aberto, sampleOperation 4 400 440 19999 aberto,
                   sampleOperation 5 500 550 20001 pago] [])))"
    by (rule conjunct2)
next
  show "activeReminders sampleNow
     (sampleState [sampleOperation 1 100 110 20005 aberto, sampleOperation 2 200 220 20000 aberto,
                   sampleOperation 3 300 330 20008 aberto, sampleOperation 4 400 440 19999 aberto,
                   sampleOperation 5 500 550 20001 pago] [])
   = [toReminder (sampleOperation 2 200 220 20000 aberto),
      toReminder (sampleOperation 1 100 110 20005 aberto)]"
    by (simp add: activeReminders_def sampleState_def sampleOperation_def sampleNow_def
        reminderFilter_def startOfDay_def differenceInDays_def parseISO_def msPerDay_def
        REMINDER_WINDOW_DAYS_def toReminder_def Let_def)
qed

theorem activeReminders_atrasado_counterexample:
  "status (sampleOperation 5 100 110 20003 atrasado) = atrasado
   \<and> dayOf sampleNow \<le> dueDate (sampleOperation 5 100 110 20003 atrasado)
   \<and> dueDate (sampleOperation 5 100 110 20003 atrasado) \<le> dayOf sampleNow + 7
   \<and> opId (sampleOperation 5 100 110 20003 atrasado)
        \<notin> set (dismissedReminderIds (sampleState [sampleOperation 5 100 110 20003 atrasado] []))
   \<and> sampleOperation 5 100 110 20003 atrasado
        \<in> set (operations (sampleState [sampleOperation 5 100 110 20003 atrasado] []))
   \<and> activeReminders sampleNow (sampleState [sampleOperation 5 100 110 20003 atrasado] []) = []"
  by (simp add: activeReminders_def sampleState_def sampleOperation_def sampleNow_def
        reminderFilter_def dayOf_def msPerDay_def)


section \<open>Binary64 rounding\<close>

lemma two_powi_pos: "0 < (2::rat) powi e"
  by (simp add: zero_less_power_int)

lemma two_powi_Suc: "(2::rat) powi (e + 1) = 2 * 2 powi e"
  by (simp add: power_int_add_1')

lemma two_powi_le: "d \<le> e \<Longrightarrow> (2::rat) powi d \<le> 2 powi e"
  by (rule power_int_increasing) simp_all

lemma two_powi_less: "d < e \<Longrightarrow> (2::rat) powi d < 2 powi e"
  by (rule power_int_strict_increasing) simp_all

lemma bitlen_powi:
  assumes "0 < a"
  shows "(2::rat) powi (bitlen a - 1) \<le> of_int a" and "of_int a < (2::rat) powi bitlen a"
proof -
  from assms have l: "1 \<le> bitlen a"
    by (auto simp: bitlen_alt_def)
  from bitlen_bounds [OF assms]
  have lo: "2 ^ nat (bitlen a - 1) \<le> a" and hi: "a < 2 ^ nat (bitlen a)"
    by simp_all
  have "(2::rat) powi (bitlen a - 1) = of_int (2 ^ nat (bitlen a - 1))"
    using l by (simp add: power_int_nonneg_exp)
  also have "\<dots> \<le> of_int a"
    using lo by (simp only: of_int_le_iff)
  finally show "(2::rat) powi (bitlen a - 1) \<le> of_int a" .
  have "(of_int a :: rat) < of_int (2 ^ nat (bitlen a))"
    using hi by (simp only: of_int_less_iff)
  also have "\<dots> = (2::rat) powi bitlen a"
    using l by (simp add: power_int_nonneg_exp)
  finally show "of_int a < (2::rat) powi bitlen a" .
qed

lemma ilog2_bounds:
  assumes "x \<noteq> 0"
  shows "2 powi ilog2 x \<le> \<bar>x\<bar>" and "\<bar>x\<bar> < 2 powi (ilog2 x + 1)"
proof -
  define a where "a = fst (quotient_of \<bar>x\<bar>)"
  define b where "b = snd (quotient_of \<bar>x\<bar>)"
  define d where "d = bitlen a - bitlen b"
  have b: "0 < b"
    by (simp add: b_def quotient_of_denom_pos')
  have x: "\<bar>x\<bar> = of_int a / of_int b"
    by (rule quotient_of_div) (simp add: a_def b_def)
  from assms have "0 < \<bar>x\<bar>" by simp
  with x b have a: "0 < a"
    by (simp add: zero_less_divide_iff)
  note A = bitlen_powi [OF a] and B = bitlen_powi [OF b]
  have bq: "(0::rat) < of_int b" using b by simp
  have up: "\<bar>x\<bar> < 2 powi (d + 1)"
  proof -
    have "of_int a < (2::rat) powi bitlen a" by (rule A(2))
    also have "\<dots> = 2 powi (d + 1) * 2 powi (bitlen b - 1)"
      by (simp add: d_def flip: power_int_add)
    also have "\<dots> \<le> 2 powi (d + 1) * of_int b"
      using B(1) two_powi_pos [of "d + 1"] by (simp only: mult_le_cancel_left_pos)
    finally show ?thesis
      using bq by (simp add: x pos_divide_less_eq)
  qed
  have low: "2 powi (d - 1) < \<bar>x\<bar>"
  proof -
    have "2 powi (d - 1) * of_int b < 2 powi (d - 1) * (2::rat) powi bitlen b"
      using B(2) two_powi_pos [of "d - 1"] by (simp only: mult_less_cancel_left_pos)
    also have "\<dots> = 2 powi (bitlen a - 1)"
      by (simp add: d_def flip: power_int_add)
    also have "\<dots> \<le> of_int a" by (rule A(1))
    finally show ?thesis
      using bq by (simp add: x pos_less_divide_eq)
  qed
  have il: "ilog2 x = (if 2 powi d \<le> \<bar>x\<bar> then d else d - 1)"
    by (simp add: ilog2_def Let_def d_def a_def b_def)
  show "2 powi ilog2 x \<le> \<bar>x\<bar>"
    using low by (simp add: il)
  show "\<bar>x\<bar> < 2 powi (ilog2 x + 1)"
    using up by (auto simp: il not_le)
qed

lemma ilog2_unique:
  assumes "2 powi e \<le> \<bar>x\<bar>" and "\<bar>x\<bar> < 2 powi (e + 1)"
  shows "ilog2 x = e"
proof -
  from assms(1) two_powi_pos [of e] have "0 < \<bar>x\<bar>" by linarith
  then have "x \<noteq> 0" by simp
  note I = ilog2_bounds [OF this]
  have "\<not> ilog2 x < e"
  proof
    assume "ilog2 x < e"
    then have "ilog2 x + 1 \<le> e" by simp
    then have "(2::rat) powi (ilog2 x + 1) \<le> 2 powi e" by (rule two_powi_le)
    with I(2) assms(1) show False by linarith
  qed
  moreover have "\<not> e < ilog2 x"
  proof
    assume "e < ilog2 x"
    then have "e + 1 \<le> ilog2 x" by simp
    then have "(2::rat) powi (e + 1) \<le> 2 powi ilog2 x" by (rule two_powi_le)
    with I(1) assms(2) show False by linarith
  qed
  ultimately show ?thesis by simp
qed

lemma roundHalfEven_error: "\<bar>of_int (roundHalfEven z) - z\<bar> \<le> 1 / 2"
proof -
  have "of_int \<lfloor>z\<rfloor> \<le> z" and "z < of_int \<lfloor>z\<rfloor> + 1"
    by linarith+
  then show ?thesis
    by (auto simp: roundHalfEven_def Let_def)
qed

lemma roundHalfEven_unique:
  assumes "\<bar>z - of_int m\<bar> < 1 / 2"
  shows "roundHalfEven z = m"
proof -
  from roundHalfEven_error [of z] assms
  have "\<bar>(of_int (roundHalfEven z) :: rat) - of_int m\<bar> < 1" by linarith
  then have "\<bar>of_int (roundHalfEven z - m) :: rat\<bar> < of_int 1" by simp
  then have "\<bar>roundHalfEven z - m\<bar> < 1"
    by (simp only: of_int_abs [symmetric] of_int_less_iff)
  then show ?thesis by simp
qed

lemma nearest64_eval:
  assumes "2 powi e \<le> \<bar>x\<bar>" and "\<bar>x\<bar> < 2 powi (e + 1)" and "- 1022 \<le> e"
    and "\<bar>x / 2 powi (e - 52) - of_int m\<bar> < 1 / 2"
  shows "nearest64 x = of_int m * 2 powi (e - 52)"
proof -
  from assms(1) two_powi_pos [of e] have "0 < \<bar>x\<bar>" by linarith
  then have nz: "x \<noteq> 0" by simp
  have e: "ilog2 x = e" by (rule ilog2_unique [OF assms(1,2)])
  from assms(3) have q: "max e (- 1022) - 52 = e - 52" by simp
  show ?thesis
    using nz by (simp add: nearest64_def Let_def e q roundHalfEven_unique [OF assms(4)])
qed

lemma nearest64_error:
  assumes "\<bar>x\<bar> < 2 ^ 34"
  shows "\<bar>nearest64 x - x\<bar> \<le> 1 / 2 ^ 20"
proof (cases "x = 0")
  case True
  then show ?thesis by (simp add: nearest64_def)
next
  case False
  define q where "q = max (ilog2 x) (- 1022) - 52"
  define z where "z = x / 2 powi q"
  have "\<not> 34 \<le> ilog2 x"
  proof
    assume "34 \<le> ilog2 x"
    then have "(2::rat) powi 34 \<le> 2 powi ilog2 x" by (rule two_powi_le)
    with ilog2_bounds(1) [OF False] assms show False by simp
  qed
  then have "q \<le> - 19" by (simp add: q_def)
  then have "(2::rat) powi q \<le> 2 powi (- 19)" by (rule two_powi_le)
  then have p: "(2::rat) powi q \<le> 1 / 2 ^ 19"
    by (simp add: power_int_minus field_simps)
  have pos: "0 < (2::rat) powi q" by (rule two_powi_pos)
  have n: "nearest64 x = of_int (roundHalfEven z) * 2 powi q"
    using False by (simp add: nearest64_def Let_def q_def z_def)
  have "z * 2 powi q = x"
    using pos by (simp add: z_def)
  then have "nearest64 x - x = (of_int (roundHalfEven z) - z) * 2 powi q"
    unfolding n by (simp only: left_diff_distrib)
  then have "\<bar>nearest64 x - x\<bar> = \<bar>of_int (roundHalfEven z) - z\<bar> * 2 powi q"
    using pos by (simp add: abs_mult)
  also have "\<dots> \<le> (1 / 2) * 2 powi q"
    using roundHalfEven_error [of z] pos by (simp only: mult_le_cancel_right_pos)
  also have "\<dots> \<le> (1 / 2) * (1 / 2 ^ 19)"
    using p by simp
  also have "\<dots> = 1 / 2 ^ 20" by simp
  finally show ?thesis .
qed

lemma round64_finite:
  assumes "\<bar>x\<bar> < 2 ^ 34"
  shows "round64 x = Finite (nearest64 x)"
proof -
  have "(2::rat) ^ 34 + 1 \<le> 2 powi 1024"
  proof -
    have "(2::rat) ^ 34 + 1 \<le> 2 powi 35" by simp
    also have "\<dots> \<le> 2 powi 1024" by (rule two_powi_le) simp
    finally show ?thesis .
  qed
  moreover have "(1::rat) / 2 ^ 20 \<le> 1" by simp
  ultimately have "\<bar>nearest64 x\<bar> < 2 powi 1024"
    using nearest64_error [OF assms] assms by linarith
  then show ?thesis
    by (simp add: round64_def Let_def)
qed


lemma roundHalfEven_tie:
  assumes "z = of_int f + 1 / 2"
  shows "roundHalfEven z = (if even f then f else f + 1)"
proof -
  have "\<lfloor>z\<rfloor> = f"
    unfolding assms by (rule floor_unique) simp_all
  then show ?thesis
    by (simp add: roundHalfEven_def Let_def assms)
qed

text \<open>
  Evaluation of \<open>nearest64\<close> at a number between \<open>2\<^sup>5\<^sup>2\<^sup>-\<^sup>k\<close> and \<open>2\<^sup>5\<^sup>3\<^sup>-\<^sup>k\<close>: the spacing
  there is \<open>2\<^sup>-\<^sup>k\<close>.
\<close>

lemma nearest64_frac:
  assumes "2 ^ 52 \<le> \<bar>x\<bar> * 2 ^ k" and "\<bar>x\<bar> * 2 ^ k < 2 ^ 53" and "k \<le> 1074"
    and "roundHalfEven (x * 2 ^ k) = m"
  shows "nearest64 x = of_int m / 2 ^ k"
proof -
  define e where "e = 52 - int k"
  have pk: "(2::rat) powi (e - 52) = 1 / 2 ^ k"
    by (simp add: e_def power_int_minus field_simps)
  have pe: "(2::rat) powi e = 2 ^ 52 / 2 ^ k"
    unfolding e_def by (simp add: power_int_diff)
  have pe1: "(2::rat) powi (e + 1) = 2 ^ 53 / 2 ^ k"
    by (simp add: two_powi_Suc pe)
  have lo: "2 powi e \<le> \<bar>x\<bar>"
    using assms(1) by (simp add: pe pos_divide_le_eq)
  have hi: "\<bar>x\<bar> < 2 powi (e + 1)"
    using assms(2) by (simp only: pe1) (simp add: pos_less_divide_eq)
  from lo two_powi_pos [of e] have "0 < \<bar>x\<bar>" by linarith
  then have nz: "x \<noteq> 0" by simp
  have il: "ilog2 x = e" by (rule ilog2_unique [OF lo hi])
  from assms(3) have q: "max e (- 1022) - 52 = e - 52" by (simp add: e_def)
  show ?thesis
    using nz by (simp add: nearest64_def Let_def il q pk assms(4))
qed


section \<open>Applying a receipt\<close>

lemma handleUpdateOperationStatus_simps:
  "operations (handleUpdateOperationStatus updOk i s st)
     = (if updOk then map (\<lambda>op. if opId op = i then op\<lparr>status := s\<rparr> else op) (operations st)
        else operations st)"
  "receipts (handleUpdateOperationStatus updOk i s st) = receipts st"
  "requests (handleUpdateOperationStatus updOk i s st) = requests st @ [UpdateOperationStatus i s]"
  by (simp_all add: handleUpdateOperationStatus_def Let_def)

lemma find_opId:
  "find (\<lambda>op. opId op = i) ops = Some operation \<Longrightarrow> opId operation = i \<and> operation \<in> set ops"
  by (auto simp: find_Some_iff)

lemma handleAddReceipt_settlement_unfold:
  assumes "insertRes = Some newId"
    and "find (\<lambda>op. opId op = operationId receiptData) (operations st) = Some operation"
    and "newDueDate receiptData = None"
  shows "handleAddReceipt insertRes updOk receiptData st
     = (let st2 = (issue (InsertReceipt (insertedRow receiptData)) st)
                    \<lparr>receipts := newReceipt newId receiptData # receipts st\<rparr>
        in if fge (fadd (foldl (\<lambda>sum r. fadd sum (Finite (valor_principal_pago r))) (Finite 0)
                           (filter (\<lambda>r. operationId r = operationId receiptData) (receipts st)))
                     (Finite (valor_principal_pago receiptData)))
                (Finite (nominalValue operation))
           then handleUpdateOperationStatus updOk (opId operation) pago st2 else st2)"
  unfolding handleAddReceipt_def assms Let_def
  by simp

text \<open>The amounts of the instances below, as binary64 numbers.\<close>

lemma decimal_1004: "decimal 1004 = 1413004383087493 / 140737488355328"
proof -
  have "nearest64 (of_int 1004 / 100) = of_int 5652017532349972 / 2 ^ 49"
  proof (rule nearest64_frac)
    show "roundHalfEven (of_int 1004 / 100 * 2 ^ 49) = 5652017532349972"
      by (rule roundHalfEven_unique) simp
  qed simp_all
  then show ?thesis
    by (simp add: decimal_def)
qed

lemma decimal_10000: "decimal 10000 = 100"
proof -
  have "nearest64 (of_int 10000 / 100) = of_int 7036874417766400 / 2 ^ 46"
  proof (rule nearest64_frac)
    show "roundHalfEven (of_int 10000 / 100 * 2 ^ 46) = 7036874417766400"
      by (rule roundHalfEven_unique) simp
  qed simp_all
  then show ?thesis
    by (simp add: decimal_def)
qed

lemma decimal_11004: "decimal 11004 = 7743376609310147 / 70368744177664"
proof -
  have "nearest64 (of_int 11004 / 100) = of_int 7743376609310147 / 2 ^ 46"
  proof (rule nearest64_frac)
    show "roundHalfEven (of_int 11004 / 100 * 2 ^ 46) = 7743376609310147"
      by (rule roundHalfEven_unique) simp
  qed simp_all
  then show ?thesis
    by (simp add: decimal_def)
qed

lemma round64_1004: "round64 (0 + 1413004383087493 / 140737488355328) = Finite (1413004383087493 / 140737488355328)"
proof -
  have "nearest64 (1413004383087493 / 140737488355328) = of_int 5652017532349972 / 2 ^ 49"
  proof (rule nearest64_frac)
    show "roundHalfEven (1413004383087493 / 140737488355328 * 2 ^ 49) = 5652017532349972"
      by (rule roundHalfEven_unique) simp
  qed simp_all
  then have "nearest64 (1413004383087493 / 140737488355328) = 1413004383087493 / 140737488355328"
    by simp
  moreover have "round64 (1413004383087493 / 140737488355328) = Finite (nearest64 (1413004383087493 / 140737488355328))"
    by (rule round64_finite) simp
  ultimately show ?thesis by simp
qed

text \<open>\<^verbatim>\<open>10.04 + 100\<close> lies halfway between two binary64 numbers and goes to the lower one.\<close>

lemma round64_1004_plus_100: "round64 (1413004383087493 / 140737488355328 + 100) = Finite (3871688304655073 / 35184372088832)"
proof -
  have "nearest64 (1413004383087493 / 140737488355328 + 100) = of_int 7743376609310146 / 2 ^ 46"
  proof (rule nearest64_frac)
    have "roundHalfEven (of_int 7743376609310146 + 1 / 2)
        = (if even (7743376609310146::int) then 7743376609310146 else 7743376609310146 + 1)"
      by (rule roundHalfEven_tie) (rule refl)
    then show "roundHalfEven ((1413004383087493 / 140737488355328 + 100) * 2 ^ 46) = 7743376609310146"
      by simp
  qed simp_all
  also have "(of_int 7743376609310146 :: rat) / 2 ^ 46 = 3871688304655073 / 35184372088832"
    by simp
  finally have m1: "nearest64 (1413004383087493 / 140737488355328 + 100)
      = 3871688304655073 / 35184372088832" .
  have m2: "round64 (1413004383087493 / 140737488355328 + 100)
      = Finite (nearest64 (1413004383087493 / 140737488355328 + 100))"
    by (rule round64_finite) simp
  show ?thesis by (simp only: m2 m1)
qed

lemma sampleReceipt_sel:
  "operationId (sampleReceipt i oid p j) = oid"
  "valor_principal_pago (sampleReceipt i oid p j) = p"
  "recId (sampleReceipt i oid p j) = i"
  by (simp_all add: sampleReceipt_def)

lemma sampleNewReceipt_sel:
  "operationId (sampleNewReceipt oid p j d) = oid"
  "valor_principal_pago (sampleNewReceipt oid p j d) = p"
  "newDueDate (sampleNewReceipt oid p j d) = d"
  by (simp_all add: sampleNewReceipt_def)

lemma sampleOperation_sel:
  "opId (sampleOperation i n v d s) = i"
  "nominalValue (sampleOperation i n v d s) = n"
  "dueDate (sampleOperation i n v d s) = d"
  "status (sampleOperation i n v d s) = s"
  by (simp_all add: sampleOperation_def)

lemma sampleState_sel:
  "operations (sampleState ops rs) = ops"
  "receipts (sampleState ops rs) = rs"
  "requests (sampleState ops rs) = []"
  by (simp_all add: sampleState_def)

lemmas sample_sel = sampleReceipt_sel sampleNewReceipt_sel sampleOperation_sel sampleState_sel

text \<open>
  Claim C1. The claim has the status set to \<open>pago\<close> as soon as the principal paid, the
  new receipt included, reaches \<open>nominalValue\<close>, and the handler is written to do that
  (its comment: only close the operation if principal paid >= nominal value). It adds
  the amounts in binary64. For an open operation of 110.04 with a receipt of 10.04, a
  new receipt of 100.00 completes the principal to the cent; the handler computes
  \<^verbatim>\<open>10.04 + 100\<close> as the binary64 number just below 110.04, its test fails, no update
  is sent to the store and the operation stays \<open>aberto\<close>.
\<close>

theorem handleAddReceipt_settlement_rounding:
  "(1004::int) + 10000 = 11004
   \<and> operations (handleAddReceipt (Some 2) True (sampleNewReceipt 7 (decimal 10000) 0 None)
        (sampleState [sampleOperation 7 (decimal 11004) 121 20010 aberto]
                     [sampleReceipt 1 7 (decimal 1004) 0]))
     = [sampleOperation 7 (decimal 11004) 121 20010 aberto]
   \<and> requests (handleAddReceipt (Some 2) True (sampleNewReceipt 7 (decimal 10000) 0 None)
        (sampleState [sampleOperation 7 (decimal 11004) 121 20010 aberto]
                     [sampleReceipt 1 7 (decimal 1004) 0]))
     = [InsertReceipt (insertedRow (sampleNewReceipt 7 (decimal 10000) 0 None))]"
proof -
  let ?st = "sampleState [sampleOperation 7 (decimal 11004) 121 20010 aberto]
                     [sampleReceipt 1 7 (decimal 1004) 0]"
  let ?rd = "sampleNewReceipt 7 (decimal 10000) 0 None"
  have f: "find (\<lambda>op. opId op = operationId ?rd) (operations ?st)
      = Some (sampleOperation 7 (decimal 11004) 121 20010 aberto)"
    by (simp add: sample_sel)
  have n: "newDueDate ?rd = None" by (simp add: sample_sel)
  have total: "fadd (foldl (\<lambda>sum r. fadd sum (Finite (valor_principal_pago r))) (Finite 0)
                        (filter (\<lambda>r. operationId r = operationId ?rd) (receipts ?st)))
                  (Finite (valor_principal_pago ?rd))
      = Finite (3871688304655073 / 35184372088832)"
    by (simp add: sample_sel decimal_1004 decimal_10000 round64_1004 [simplified]
        round64_1004_plus_100 [simplified])
  have test: "\<not> fge (Finite (3871688304655073 / 35184372088832))
                 (Finite (nominalValue (sampleOperation 7 (decimal 11004) 121 20010 aberto)))"
    by (simp add: sample_sel decimal_11004)
  have "handleAddReceipt (Some 2) True ?rd ?st
      = (issue (InsertReceipt (insertedRow ?rd)) ?st)\<lparr>receipts := newReceipt 2 ?rd # receipts ?st\<rparr>"
    unfolding handleAddReceipt_settlement_unfold [OF refl f n] Let_def total
    using test by (simp add: sample_sel)
  then show ?thesis
    by (simp add: sample_sel)
qed


section \<open>Extending the due date\<close>

lemma handleAddReceipt_extension_unfold:
  assumes "insertRes = Some newId"
    and "find (\<lambda>op. opId op = operationId receiptData) (operations st) = Some operation"
    and "newDueDate receiptData = Some d"
  shows "handleAddReceipt insertRes updOk receiptData st
     = (let st3 = issue (UpdateOperationDueDate (opId operation) d aberto)
                    ((issue (InsertReceipt (insertedRow receiptData)) st)
                       \<lparr>receipts := newReceipt newId receiptData # receipts st\<rparr>)
        in if updOk
           then st3\<lparr>operations :=
                      map (\<lambda>op. if opId op = opId operation
                                 then op\<lparr>dueDate := d, status := aberto\<rparr> else op)
                          (operations st)\<rparr>
           else addNotification ErroRegistrarRecebimento st3)"
  unfolding handleAddReceipt_def assms Let_def
  by simp

text \<open>
  Claim C2. A receipt that carries a \<open>newDueDate\<close> and that the store accepts sends one
  update for its operation, whatever the status of the operation was: the due date
  becomes the new one and the status \<open>aberto\<close>, in the store and then in memory. Nothing
  else is sent: the payment-completion rule is not evaluated on this path, however
  much principal has been paid.
\<close>

theorem handleAddReceipt_extension:
  assumes "insertRes = Some newId"
    and "find (\<lambda>op. opId op = operationId receiptData) (operations st) = Some operation"
    and "newDueDate receiptData = Some d"
    and "st' = handleAddReceipt insertRes updOk receiptData st"
  shows "receipts st' = newReceipt newId receiptData # receipts st
       \<and> requests st' = requests st @ [InsertReceipt (insertedRow receiptData),
                                          UpdateOperationDueDate (opId operation) d aberto]
       \<and> operations st'
           = (if updOk
              then map (\<lambda>op. if opId op = opId operation
                              then op\<lparr>dueDate := d, status := aberto\<rparr> else op)
                     (operations st)
              else operations st)"
proof -
  note st' = handleAddReceipt_extension_unfold [OF assms(1,2,3), of updOk, folded assms(4)]
  have rec: "receipts st' = newReceipt newId receiptData # receipts st"
    by (simp add: st' Let_def)
  have req: "requests st' = requests st @ [InsertReceipt (insertedRow receiptData),
                                          UpdateOperationDueDate (opId operation) d aberto]"
    by (simp add: st' Let_def)
  have ops: "operations st'
           = (if updOk
              then map (\<lambda>op. if opId op = opId operation
                              then op\<lparr>dueDate := d, status := aberto\<rparr> else op)
                     (operations st)
              else operations st)"
    by (simp add: st' Let_def)
  show ?thesis
    by (rule conjI [OF rec conjI [OF req ops]])
qed

theorem handleAddReceipt_extension_witness:
  "operations (handleAddReceipt (Some 2) True (sampleNewReceipt 7 0 0 (Some 20100))
       (sampleState [sampleOperation 7 500 550 19990 atrasado] [sampleReceipt 1 7 500 50]))
     = [sampleOperation 7 500 550 20100 aberto]
   \<and> requests (handleAddReceipt (Some 2) True (sampleNewReceipt 7 0 0 (Some 20100))
       (sampleState [sampleOperation 7 500 550 19990 atrasado] [sampleReceipt 1 7 500 50]))
     = [InsertReceipt (insertedRow (sampleNewReceipt 7 0 0 (Some 20100))),
        UpdateOperationDueDate 7 20100 aberto]"
proof -
  let ?st = "sampleState [sampleOperation 7 500 550 19990 atrasado] [sampleReceipt 1 7 500 50]"
  let ?op = "sampleOperation 7 500 550 19990 atrasado"
  have f: "find (\<lambda>op. opId op = operationId (sampleNewReceipt 7 0 0 (Some 20100)))
             (operations ?st) = Some ?op"
    by (simp add: sampleState_def sampleOperation_def sampleNewReceipt_def)
  have n: "newDueDate (sampleNewReceipt 7 0 0 (Some 20100)) = Some 20100"
    by (simp add: sampleNewReceipt_def)
  from handleAddReceipt_extension [where updOk = True and newId = 2 and insertRes = "Some 2", OF refl f n refl]
  show ?thesis
    by (simp add: sampleState_def sampleOperation_def)
qed


section \<open>Reversing a receipt\<close>

lemma handleDeleteReceipt_unfold:
  assumes "find (\<lambda>r. recId r = receiptId) (receipts st) = Some receiptToDelete"
    and "find (\<lambda>op. opId op = operationId receiptToDelete) (operations st) = Some operation"
  shows "handleDeleteReceipt now True updOk receiptId st
     = (let st2 = (issue (DeleteReceipt receiptId) st)
                    \<lparr>receipts := filter (\<lambda>r. recId r \<noteq> receiptId) (receipts st)\<rparr>
        in if status operation \<noteq> pago then st2
           else if flt (foldl (\<lambda>sum r. fadd sum (Finite (valor_principal_pago r))) (Finite 0)
                          (filter (\<lambda>r. operationId r = operationId receiptToDelete
                                       \<and> recId r \<noteq> receiptId) (receipts st)))
                       (Finite (nominalValue operation))
                then handleUpdateOperationStatus updOk (opId operation)
                       (if dueDate operation < dayOf now then atrasado else aberto) st2
                else st2)"
  unfolding handleDeleteReceipt_def Let_def overdue_iff
  by (simp add: assms)

text \<open>
  Claim C3. The claim keeps an operation \<open>pago\<close> when the principal of the remaining
  receipts still covers \<open>nominalValue\<close>. The handler adds the remaining amounts in
  binary64. For a paid operation of 110.04, overdue, with receipts of 100.00, 10.04
  and 5.00, deleting the receipt of 5.00 leaves the principal covered to the cent;
  the handler computes \<^verbatim>\<open>10.04 + 100\<close> as the binary64 number just below 110.04, takes
  the operation for underpaid and sets it to \<open>atrasado\<close>.
\<close>

theorem handleDeleteReceipt_reversal_rounding:
  "(10000::int) + 1004 = 11004
   \<and> operations (handleDeleteReceipt sampleNow True True 3
        (sampleState [sampleOperation 7 (decimal 11004) 121 19990 pago]
           [sampleReceipt 3 7 (decimal 500) 0, sampleReceipt 2 7 (decimal 1004) 0,
            sampleReceipt 1 7 (decimal 10000) 0]))
     = [sampleOperation 7 (decimal 11004) 121 19990 atrasado]
   \<and> requests (handleDeleteReceipt sampleNow True True 3
        (sampleState [sampleOperation 7 (decimal 11004) 121 19990 pago]
           [sampleReceipt 3 7 (decimal 500) 0, sampleReceipt 2 7 (decimal 1004) 0,
            sampleReceipt 1 7 (decimal 10000) 0]))
     = [DeleteReceipt 3, UpdateOperationStatus 7 atrasado]"
proof -
  let ?op = "sampleOperation 7 (decimal 11004) 121 19990 pago"
  let ?st = "sampleState [?op]
           [sampleReceipt 3 7 (decimal 500) 0, sampleReceipt 2 7 (decimal 1004) 0,
            sampleReceipt 1 7 (decimal 10000) 0]"
  have fr: "find (\<lambda>r. recId r = 3) (receipts ?st) = Some (sampleReceipt 3 7 (decimal 500) 0)"
    by (simp add: sample_sel)
  have fo: "find (\<lambda>op. opId op = operationId (sampleReceipt 3 7 (decimal 500) 0)) (operations ?st)
      = Some ?op"
    by (simp add: sample_sel)
  have total: "foldl (\<lambda>sum r. fadd sum (Finite (valor_principal_pago r))) (Finite 0)
                 (filter (\<lambda>r. operationId r = operationId (sampleReceipt 3 7 (decimal 500) 0)
                              \<and> recId r \<noteq> 3) (receipts ?st))
      = Finite (3871688304655073 / 35184372088832)"
    by (simp add: sample_sel decimal_1004 decimal_10000 round64_1004 [simplified]
        round64_1004_plus_100 [simplified])
  have test: "flt (Finite (3871688304655073 / 35184372088832)) (Finite (nominalValue ?op))"
    by (simp add: sample_sel decimal_11004)
  have due: "dueDate ?op < dayOf sampleNow"
    by (simp add: sample_sel sampleNow_def dayOf_def msPerDay_def)
  have "handleDeleteReceipt sampleNow True True 3 ?st
      = handleUpdateOperationStatus True (opId ?op) atrasado
          ((issue (DeleteReceipt 3) ?st)
             \<lparr>receipts := filter (\<lambda>r. recId r \<noteq> 3) (receipts ?st)\<rparr>)"
    unfolding handleDeleteReceipt_unfold [OF fr fo] Let_def total
    using test due by (simp add: sample_sel)
  then show ?thesis
    by (simp add: handleUpdateOperationStatus_simps sample_sel) (simp add: sampleOperation_def)
qed

section \<open>Installment expansion\<close>

lemma roundHalfEven_of_int: "roundHalfEven (of_int m) = m"
  by (rule roundHalfEven_unique) simp

lemma nearest64_of_nat:
  assumes "n < 2 ^ 53"
  shows "nearest64 (of_nat n) = of_nat n"
proof (cases "n = 0")
  case True
  then show ?thesis by (simp add: nearest64_def)
next
  case False
  define x :: rat where "x = of_nat n"
  define e where "e = ilog2 x"
  from False have nz: "x \<noteq> 0" and x1: "1 \<le> \<bar>x\<bar>"
    by (simp_all add: x_def)
  from assms have "(of_nat n :: rat) < of_nat (2 ^ 53)"
    by (simp only: of_nat_less_iff)
  then have x53: "\<bar>x\<bar> < 2 powi 53"
    by (simp add: x_def)
  note I = ilog2_bounds [OF nz, folded e_def]
  have e0: "0 \<le> e"
  proof (rule ccontr)
    assume "\<not> 0 \<le> e"
    then have "e + 1 \<le> 0" by simp
    then have "(2::rat) powi (e + 1) \<le> 2 powi 0" by (rule two_powi_le)
    with I(2) x1 show False by simp
  qed
  have e52: "e \<le> 52"
  proof (rule ccontr)
    assume "\<not> e \<le> 52"
    then have "53 \<le> e" by simp
    then have "(2::rat) powi 53 \<le> 2 powi e" by (rule two_powi_le)
    with I(1) x53 show False by linarith
  qed
  define k where "k = nat (52 - e)"
  from e52 have q: "e - 52 = - int k"
    by (simp add: k_def)
  have p: "(2::rat) powi (e - 52) = 1 / 2 ^ k"
    unfolding q by (simp add: power_int_minus field_simps)
  have "\<bar>x / 2 powi (e - 52) - of_int (int n * 2 ^ k)\<bar> < 1 / 2"
    by (simp add: p x_def)
  from nearest64_eval [OF I(1) I(2) _ this] e0
  have "nearest64 x = of_int (int n * 2 ^ k) * 2 powi (e - 52)"
    by simp
  also have "\<dots> = x"
    by (simp add: p x_def)
  finally show ?thesis
    by (simp add: x_def)
qed

lemma round64_of_nat:
  assumes "n < 2 ^ 53"
  shows "round64 (of_nat n) = Finite (of_nat n)"
proof -
  from assms have "(of_nat n :: rat) < of_nat (2 ^ 53)"
    by (simp only: of_nat_less_iff)
  then have "(of_nat n :: rat) < 2 powi 53"
    by simp
  also have "(2::rat) powi 53 \<le> 2 powi 1024"
    by (rule two_powi_le) simp
  finally have "\<not> 2 powi 1024 \<le> \<bar>of_nat n :: rat\<bar>"
    by simp
  then show ?thesis
    by (simp add: round64_def Let_def nearest64_of_nat [OF assms])
qed

text \<open>
  The value field of the form submits \<^verbatim>\<open>parseCurrencyInput\<close> of its text: the binary64
  number of a whole number of cents.
\<close>

lemma parseCurrencyInput_decimal:
  assumes "digitsValue (filter isDigit v) = c" and "c \<le> 10 ^ 12"
  shows "parseCurrencyInput v = Finite (decimal (int c))"
proof (cases "filter isDigit v = []")
  case True
  with assms(1) have "c = 0"
    by (simp add: digitsValue_def)
  with True show ?thesis
    by (simp add: parseCurrencyInput_def decimal_def nearest64_def)
next
  case False
  from assms(2) have "c < 2 ^ 53"
    by simp
  then have n: "Number (filter isDigit v) = Finite (of_nat c)"
    by (simp add: Number_def assms(1) round64_of_nat)
  from assms(2) have "(of_nat c :: rat) \<le> of_nat (10 ^ 12)"
    by (simp only: of_nat_le_iff)
  then have "\<bar>of_nat c / 100 :: rat\<bar> < 2 ^ 34"
    by simp
  then have "round64 (of_nat c / 100) = Finite (nearest64 (of_nat c / 100))"
    by (rule round64_finite)
  with False n show ?thesis
    by (simp add: parseCurrencyInput_def decimal_def)
qed

lemma parseCurrencyInput_example: "parseCurrencyInput ''R$ 1.000,01'' = Finite (decimal 100001)"
proof -
  have "digitsValue (filter isDigit ''R$ 1.000,01'') = 100001"
    by (simp add: isDigit_def digitsValue_def digitValue_def)
  from parseCurrencyInput_decimal [OF this] show ?thesis
    by simp
qed















declare installmentLoop.simps [simp del]

lemma installmentPayload_valid:
  assumes "dueDateInput opData = Some d"
  shows "\<exists>payload. installmentPayload opData c per diff i = Inr payload
           \<and> nominal_value payload = (if int i = int c - 1 then fadd per diff else per)"
  by (simp add: installmentPayload_def Let_def assms)

lemma installmentLoop_valid:
  "dueDateInput opData = Some d \<Longrightarrow>
   \<exists>ps. installmentLoop opData c per diff i bulk = Inr (bulk @ ps)
      \<and> map nominal_value ps
          = map (\<lambda>j. if int j = int c - 1 then fadd per diff else per) [i..<c]"
proof (induction opData c per diff i bulk rule: installmentLoop.induct)
  case (1 opData c per diff i bulk)
  show ?case
  proof (cases "i < c")
    case True
    from installmentPayload_valid [OF "1.prems", of c per diff i]
    obtain payload where p: "installmentPayload opData c per diff i = Inr payload"
      and v: "nominal_value payload = (if int i = int c - 1 then fadd per diff else per)"
      by blast
    from "1.IH" [OF True p "1.prems"]
    obtain ps where l: "installmentLoop opData c per diff (i + 1) (bulk @ [payload])
          = Inr ((bulk @ [payload]) @ ps)"
      and m: "map nominal_value ps
          = map (\<lambda>j. if int j = int c - 1 then fadd per diff else per) [i + 1..<c]"
      by blast
    have u: "[i..<c] = i # [i + 1..<c]"
      using True by (simp add: upt_conv_Cons)
    have "installmentLoop opData c per diff i bulk = Inr (bulk @ (payload # ps))"
      using True by (subst installmentLoop.simps) (simp add: p l [simplified])
    moreover have "map nominal_value (payload # ps)
        = map (\<lambda>j. if int j = int c - 1 then fadd per diff else per) [i..<c]"
      unfolding u by (simp add: v m)
    ultimately show ?thesis by blast
  next
    case False
    then have "installmentLoop opData c per diff i bulk = Inr (bulk @ [])"
      by (subst installmentLoop.simps) simp
    moreover from False have "map nominal_value []
        = map (\<lambda>j. if int j = int c - 1 then fadd per diff else per) [i..<c]"
      by simp
    ultimately show ?thesis by blast
  qed
qed




lemma operationPayloads_installments:
  assumes "opType opData = parcelamento" and "installments opData = Some n" and "2 \<le> n"
    and "dueDateInput opData = Some d"
    and "per = toFixed2 (fdiv (Finite (nominalValue opData)) (Finite (of_nat n)))"
    and "residual = toFixed2 (fsub (Finite (nominalValue opData)) (fmul per (Finite (of_nat n))))"
  shows "\<exists>drafts. operationPayloads opData = Inr drafts
           \<and> map nominal_value drafts
               = map (\<lambda>j. if int j = int n - 1 then fadd per residual else per) [0..<n]"
proof -
  from assms(1,2,3) have "installmentCount opData = Some n"
    by (simp add: installmentCount_def)
  then have "operationPayloads opData = installmentLoop opData n per residual 0 []"
    by (simp add: operationPayloads_def Let_def assms(5,6))
  with installmentLoop_valid [OF assms(4), of n per residual 0 "[]"] show ?thesis
    by simp
qed

text \<open>
  An instance: R$ 1.000,01 in two installments. \<^verbatim>\<open>1000.01 / 2\<close> is a binary64 number
  just below 500.005, which \<^verbatim>\<open>toFixed(2)\<close> writes as \<^verbatim>\<open>500.00\<close>; the residual is
  \<^verbatim>\<open>0.01\<close> and the drafts are 500.00 and 500.01.
\<close>

lemma decimal_100001: "decimal 100001 = 4398090491569111 / 4398046511104"
proof -
  have "nearest64 (of_int 100001 / 100) = of_int 8796180983138222 / 2 ^ 43"
  proof (rule nearest64_frac)
    show "roundHalfEven (of_int 100001 / 100 * 2 ^ 43) = 8796180983138222"
      by (rule roundHalfEven_unique) simp
  qed simp_all
  then show ?thesis
    by (simp add: decimal_def)
qed

lemma decimal_50001: "decimal 50001 = 2199067236017111 / 4398046511104"
proof -
  have "nearest64 (of_int 50001 / 100) = of_int 8796268944068444 / 2 ^ 44"
  proof (rule nearest64_frac)
    show "roundHalfEven (of_int 50001 / 100 * 2 ^ 44) = 8796268944068444"
      by (rule roundHalfEven_unique) simp
  qed simp_all
  then show ?thesis
    by (simp add: decimal_def)
qed

lemma decimal_50000: "decimal 50000 = 500"
proof -
  have "nearest64 (of_int 50000 / 100) = nearest64 (of_nat 500)"
    by simp
  also have "\<dots> = of_nat 500"
    by (rule nearest64_of_nat) simp
  finally show ?thesis
    by (simp add: decimal_def)
qed

lemma split_100001_quotient:
  "fdiv (Finite (4398090491569111 / 4398046511104)) (Finite (of_nat 2))
     = Finite (4398090491569111 / 8796093022208)"
proof -
  have "nearest64 (4398090491569111 / 4398046511104 / 2) = of_int 8796180983138222 / 2 ^ 44"
  proof (rule nearest64_frac)
    show "roundHalfEven (4398090491569111 / 4398046511104 / 2 * 2 ^ 44) = 8796180983138222"
      by (rule roundHalfEven_unique) simp
  qed simp_all
  then have m1: "nearest64 (4398090491569111 / 4398046511104 / 2)
      = 4398090491569111 / 8796093022208"
    by simp
  have m2: "round64 (4398090491569111 / 4398046511104 / 2)
      = Finite (nearest64 (4398090491569111 / 4398046511104 / 2))"
    by (rule round64_finite) simp
  have "fdiv (Finite (4398090491569111 / 4398046511104)) (Finite (of_nat 2))
      = round64 (4398090491569111 / 4398046511104 / 2)"
    by simp
  then show ?thesis
    by (simp only: m2 m1)
qed

lemma split_100001_per:
  "toFixed2 (Finite (4398090491569111 / 8796093022208)) = Finite 500"
proof -
  have "\<lfloor>(4398090491569111 / 8796093022208 :: rat) * 100 + 1 / 2\<rfloor> = 50000"
    by (rule floor_unique) simp_all
  then have c: "centsOf (4398090491569111 / 8796093022208) = 50000"
    by (simp add: centsOf_def)
  have "round64 (of_nat 500) = Finite (of_nat 500)"
    by (rule round64_of_nat) simp
  then have "round64 (of_int 50000 / 100) = Finite 500"
    by simp
  then show ?thesis
    by (simp add: c)
qed

lemma split_100001_total: "fmul (Finite 500) (Finite (of_nat 2)) = Finite 1000"
proof -
  have "round64 (of_nat 1000) = Finite (of_nat 1000)"
    by (rule round64_of_nat) simp
  then show ?thesis
    by simp
qed

lemma split_100001_difference:
  "fsub (Finite (4398090491569111 / 4398046511104)) (Finite 1000)
     = Finite (43980465111 / 4398046511104)"
proof -
  have "nearest64 (4398090491569111 / 4398046511104 + - 1000) = of_int 5764607523028992 / 2 ^ 59"
  proof (rule nearest64_frac)
    show "roundHalfEven ((4398090491569111 / 4398046511104 + - 1000) * 2 ^ 59) = 5764607523028992"
      by (rule roundHalfEven_unique) simp
  qed simp_all
  then have m1: "nearest64 (4398090491569111 / 4398046511104 + - 1000)
      = 43980465111 / 4398046511104"
    by simp
  have m2: "round64 (4398090491569111 / 4398046511104 + - 1000)
      = Finite (nearest64 (4398090491569111 / 4398046511104 + - 1000))"
    by (rule round64_finite) simp
  have "fsub (Finite (4398090491569111 / 4398046511104)) (Finite 1000)
      = round64 (4398090491569111 / 4398046511104 + - 1000)"
    by (simp only: fsub_def fneg.simps fadd.simps)
  then show ?thesis
    by (simp only: m2 m1)
qed

lemma split_100001_residual:
  "toFixed2 (Finite (43980465111 / 4398046511104))
     = Finite (5764607523034235 / 576460752303423488)"
proof -
  have "\<lfloor>(43980465111 / 4398046511104 :: rat) * 100 + 1 / 2\<rfloor> = 1"
    by (rule floor_unique) simp_all
  then have c: "centsOf (43980465111 / 4398046511104) = 1"
    by (simp add: centsOf_def)
  have "nearest64 (of_int 1 / 100) = of_int 5764607523034235 / 2 ^ 59"
  proof (rule nearest64_frac)
    show "roundHalfEven (of_int 1 / 100 * 2 ^ 59) = 5764607523034235"
      by (rule roundHalfEven_unique) simp
  qed simp_all
  then have m1: "nearest64 (of_int 1 / 100) = 5764607523034235 / 576460752303423488"
    by simp
  have m2: "round64 (of_int 1 / 100) = Finite (nearest64 (of_int 1 / 100))"
    by (rule round64_finite) simp
  have "toFixed2 (Finite (43980465111 / 4398046511104)) = round64 (of_int 1 / 100)"
    by (simp add: c)
  then show ?thesis
    by (simp only: m2 m1)
qed

lemma split_100001_last:
  "fadd (Finite 500) (Finite (5764607523034235 / 576460752303423488))
     = Finite (2199067236017111 / 4398046511104)"
proof -
  have "nearest64 (500 + 5764607523034235 / 576460752303423488) = of_int 8796268944068444 / 2 ^ 44"
  proof (rule nearest64_frac)
    show "roundHalfEven ((500 + 5764607523034235 / 576460752303423488) * 2 ^ 44) = 8796268944068444"
      by (rule roundHalfEven_unique) simp
  qed simp_all
  then have m1: "nearest64 (500 + 5764607523034235 / 576460752303423488)
      = 2199067236017111 / 4398046511104"
    by simp
  have m2: "round64 (500 + 5764607523034235 / 576460752303423488)
      = Finite (nearest64 (500 + 5764607523034235 / 576460752303423488))"
    by (rule round64_finite) simp
  have "fadd (Finite 500) (Finite (5764607523034235 / 576460752303423488))
      = round64 (500 + 5764607523034235 / 576460752303423488)"
    by (simp only: fadd.simps)
  then show ?thesis
    by (simp only: m2 m1)
qed


lemma installment_split_example:
  "\<exists>drafts. operationPayloads (sampleNewOperation (decimal 100001) 2 (Some 20000)) = Inr drafts
      \<and> map nominal_value drafts = [Finite (decimal 50000), Finite (decimal 50001)]"
proof -
  let ?d = "sampleNewOperation (decimal 100001) 2 (Some 20000)"
  have h1: "opType ?d = parcelamento" and h2: "installments ?d = Some 2"
    and h5: "dueDateInput ?d = Some 20000"
    and nv: "nominalValue ?d = decimal 100001"
    by (simp_all add: sampleNewOperation_def)
  have per: "toFixed2 (fdiv (Finite (nominalValue ?d)) (Finite (of_nat 2))) = Finite 500"
    by (simp only: nv) (simp only: decimal_100001 split_100001_quotient split_100001_per)
  have res: "toFixed2 (fsub (Finite (nominalValue ?d)) (fmul (Finite 500) (Finite (of_nat 2))))
      = Finite (5764607523034235 / 576460752303423488)"
    by (simp only: nv)
      (simp only: decimal_100001 split_100001_total split_100001_difference
        split_100001_residual)
  have up: "[0..<2] = [0, Suc 0]"
    by (simp add: upt_rec)
  from operationPayloads_installments [OF h1 h2 order_refl h5 refl refl]
  obtain drafts where d: "operationPayloads ?d = Inr drafts"
    and v: "map nominal_value drafts
        = map (\<lambda>j. if int j = int 2 - 1
                    then fadd (Finite 500) (Finite (5764607523034235 / 576460752303423488))
                    else Finite 500) [0..<2]"
    unfolding per res by blast
  from v have "map nominal_value drafts = [Finite 500, Finite (2199067236017111 / 4398046511104)]"
    unfolding split_100001_last up by simp
  then have "map nominal_value drafts = [Finite (decimal 50000), Finite (decimal 50001)]"
    by (simp only: decimal_50000 decimal_50001)
  from conjI [OF d this] show ?thesis
    by (rule exI)
qed




end
